theory Spec2Isabelle
  imports Main "HOL-Library.Word"
begin

section \<open>Session guard and health flag\<close>

text \<open>
  The mutable part of the Go \<open>Server\<close> struct that the session guard and the health gate
  read and write. \<open>decommissioned\<close> and \<open>activeSession\<close> are the two booleans protected by
  \<open>sessionMu\<close>; \<open>unhealthy\<close> is the \<open>int32\<close> accessed with \<open>atomic.StoreInt32\<close> and
  \<open>atomic.LoadInt32\<close>. Every function below is one critical section (or one atomic
  access) of the source and is modelled as one state transformer.
\<close>

record Server =
  decommissioned :: bool
  activeSession :: bool
  unhealthy :: "32 word"

text \<open>The zero value of the struct fields, as Go allocates them.\<close>

definition newServer :: Server where
  "newServer = \<lparr>decommissioned = False, activeSession = False, unhealthy = 0\<rparr>"

definition envQueryParam :: string where "envQueryParam = ''ENV''"
definition envCookieName :: string where "envCookieName = ''gotty.env''"
definition envValueDev :: string where "envValueDev = ''dev''"
definition envValueProd :: string where "envValueProd = ''prod''"

text \<open>\<open>type sessionError string\<close>: an error that is its own message.\<close>

type_synonym sessionError = string

definition errSessionActive :: sessionError where
  "errSessionActive = ''Another session is active''"

definition errServerDestroyed :: sessionError where
  "errServerDestroyed = ''Server has been destroyed''"

text \<open>
  \<open>sessionGuard\<close>: the ticket. Its \<open>server\<close> field is a pointer to the one server, which the
  model passes explicitly to \<open>finish\<close>.
\<close>

record sessionGuard =
  env :: string

definition markUnhealthy :: "Server \<Rightarrow> Server" where
  "markUnhealthy server = server\<lparr>unhealthy := 1\<rparr>"

definition isUnhealthy :: "Server \<Rightarrow> bool" where
  "isUnhealthy server = (unhealthy server = 1)"

definition beginManagedSession :: "string \<Rightarrow> Server \<Rightarrow> (sessionError + sessionGuard) \<times> Server" where
  "beginManagedSession e server =
     (if decommissioned server then (Inl errServerDestroyed, server)
      else if e = envValueDev then (Inr \<lparr>env = e\<rparr>, server)
      else if activeSession server then (Inl errSessionActive, server)
      else (Inr \<lparr>env = e\<rparr>, server\<lparr>activeSession := True\<rparr>))"

definition finish :: "sessionGuard \<Rightarrow> bool \<Rightarrow> Server \<Rightarrow> bool \<times> Server" where
  "finish guard decommission server =
     (if env guard = envValueDev then (False, server)
      else
        (let s1 = server\<lparr>activeSession := False\<rparr> in
         if decommission \<and> \<not> decommissioned s1
         then (True, markUnhealthy (s1\<lparr>decommissioned := True\<rparr>))
         else (False, s1)))"

definition shouldServeHTTP :: "string \<Rightarrow> Server \<Rightarrow> bool" where
  "shouldServeHTTP path server = (\<not> decommissioned server)"

subsection \<open>Interleavings of admission and release\<close>

text \<open>
  The request handler calls \<open>beginManagedSession\<close> once and, when it got a ticket, calls that
  ticket's \<open>finish\<close> exactly once from a deferred function. Handlers run concurrently, but
  both operations hold \<open>sessionMu\<close> for their whole body, so an execution of the program is
  an interleaving of such calls. \<open>tickets\<close> records every ticket handed out together with
  a flag telling whether its handler has already released it; a ticket is named by its
  position. A \<open>Finish\<close> of a position that holds no unreleased ticket is not a behaviour
  of any handler, and \<open>step\<close> returns \<open>None\<close> for it.
\<close>

datatype call = Begin string | Finish nat bool

record sys =
  srv :: Server
  tickets :: "(sessionGuard \<times> bool) list"

definition sys0 :: sys where
  "sys0 = \<lparr>srv = newServer, tickets = []\<rparr>"

fun step :: "sys \<Rightarrow> call \<Rightarrow> sys option" where
  "step s (Begin e) =
     (case beginManagedSession e (srv s) of
        (Inl err, server) \<Rightarrow> Some (s\<lparr>srv := server\<rparr>)
      | (Inr guard, server) \<Rightarrow> Some \<lparr>srv = server, tickets = tickets s @ [(guard, False)]\<rparr>)"
| "step s (Finish i d) =
     (if i < length (tickets s) \<and> \<not> snd (tickets s ! i)
      then Some \<lparr>srv = snd (finish (fst (tickets s ! i)) d (srv s)),
                 tickets = (tickets s)[i := (fst (tickets s ! i), True)]\<rparr>
      else None)"

fun run :: "sys \<Rightarrow> call list \<Rightarrow> sys option" where
  "run s [] = Some s"
| "run s (c # cs) = (case step s c of None \<Rightarrow> None | Some s' \<Rightarrow> run s' cs)"

text \<open>The tickets that are live (handed out, not yet released) and not of the dev environment.\<close>

definition live_prod :: "sys \<Rightarrow> (sessionGuard \<times> bool) list" where
  "live_prod s = filter (\<lambda>t. \<not> snd t \<and> env (fst t) \<noteq> envValueDev) (tickets s)"

definition guard_inv :: "sys \<Rightarrow> bool" where
  "guard_inv s =
     (length (live_prod s) \<le> 1 \<and>
      activeSession (srv s) = (live_prod s \<noteq> []) \<and>
      (live_prod s = [] \<or> \<not> decommissioned (srv s)))"

subsection \<open>Server-level operations\<close>

text \<open>
  The functions of the source that take the server and can write to its flags. A run
  of the program applies them in some order; \<open>exec_ops\<close> applies a list of them.
\<close>

datatype server_op =
    DoBegin string
  | DoFinish sessionGuard bool
  | DoMarkUnhealthy
  | DoIsUnhealthy
  | DoShouldServeHTTP string

fun apply_op :: "Server \<Rightarrow> server_op \<Rightarrow> Server" where
  "apply_op server (DoBegin e) = snd (beginManagedSession e server)"
| "apply_op server (DoFinish guard d) = snd (finish guard d server)"
| "apply_op server DoMarkUnhealthy = markUnhealthy server"
| "apply_op server DoIsUnhealthy = server"
| "apply_op server (DoShouldServeHTTP path) = server"

fun exec_ops :: "Server \<Rightarrow> server_op list \<Rightarrow> Server" where
  "exec_ops server [] = server"
| "exec_ops server (x # xs) = exec_ops (apply_op server x) xs"

section \<open>Strings, query values and Go errors\<close>

text \<open>
  Go strings are byte strings, here \<open>char list\<close>. \<open>strings.ToLower\<close> and
  \<open>strings.TrimSpace\<close> are given with their behaviour on ASCII bytes: the six ASCII
  white-space bytes are trimmed and the letters \<open>A\<close> to \<open>Z\<close> are mapped to \<open>a\<close> to \<open>z\<close>;
  bytes from \<open>0x80\<close> on are left as they are.
\<close>

definition toLowerByte :: "char \<Rightarrow> char" where
  "toLowerByte c =
     (let n = (of_char c :: nat) in if 65 \<le> n \<and> n \<le> 90 then char_of (n + 32) else c)"

definition strings_ToLower :: "string \<Rightarrow> string" where
  "strings_ToLower s = map toLowerByte s"

definition asciiSpace :: "char \<Rightarrow> bool" where
  "asciiSpace c = (let n = (of_char c :: nat) in (9 \<le> n \<and> n \<le> 13) \<or> n = 32)"

definition strings_TrimSpace :: "string \<Rightarrow> string" where
  "strings_TrimSpace s = rev (dropWhile asciiSpace (rev (dropWhile asciiSpace s)))"

text \<open>\<open>strings.Cut(s, sep)\<close> for a one-byte separator: the text before and after its first occurrence.\<close>

definition strings_Cut :: "string \<Rightarrow> char \<Rightarrow> string \<times> string" where
  "strings_Cut s sep = (takeWhile (\<lambda>c. c \<noteq> sep) s, drop 1 (dropWhile (\<lambda>c. c \<noteq> sep) s))"

definition strings_HasPrefix :: "string \<Rightarrow> string \<Rightarrow> bool" where
  "strings_HasPrefix s p = (take (length p) s = p)"

text \<open>\<open>url.Values\<close>, and \<open>http.Header\<close>, are \<open>map[string][]string\<close>.\<close>

type_synonym Values = "string \<rightharpoonup> string list"

definition Get :: "Values \<Rightarrow> string \<Rightarrow> string" where
  "Get v key = (case v key of None \<Rightarrow> [] | Some [] \<Rightarrow> [] | Some (x # xs) \<Rightarrow> x)"

text \<open>
  Error values. \<open>Canceled\<close> and \<open>DeadlineExceeded\<close> are the two errors of package
  \<open>context\<close>, \<open>ErrMasterClosed\<close> and \<open>ErrSlaveClosed\<close> the two sentinels of the bridge.
  \<open>Fundamental msg\<close> is an error without a \<open>Cause\<close> method (what \<open>pkgerrors.New\<close> returns,
  and every error of the standard library), \<open>Wrapped msg err\<close> is \<open>pkgerrors.Wrapf(err, msg)\<close>,
  whose \<open>Cause\<close> method returns \<open>err\<close>, and \<open>NilCauser msg\<close> is an error whose \<open>Cause\<close> method
  returns \<open>nil\<close>. A Go \<open>error\<close> that may be \<open>nil\<close> is a \<open>go_error option\<close>.
\<close>

datatype go_error =
    Canceled
  | DeadlineExceeded
  | ErrMasterClosed
  | ErrSlaveClosed
  | Fundamental string
  | Wrapped string go_error
  | NilCauser string

text \<open>\<open>pkgerrors.Cause\<close>: follow \<open>Cause\<close> methods until an error has none (or \<open>nil\<close> is reached).\<close>

fun Cause :: "go_error \<Rightarrow> go_error option" where
  "Cause (Wrapped msg err) = Cause err"
| "Cause (NilCauser msg) = None"
| "Cause err = Some err"

definition shouldDecommission :: "go_error option \<Rightarrow> bool" where
  "shouldDecommission err =
     (case err of
        None \<Rightarrow> True
      | Some e \<Rightarrow>
          (let cause = Cause e in
           if cause = Some Canceled \<or> cause = Some DeadlineExceeded \<or>
              cause = Some ErrMasterClosed \<or> cause = Some ErrSlaveClosed
           then True else False))"

section \<open>Parsing the arguments: \<open>net/url\<close>\<close>

text \<open>
  \<open>processWSConn\<close> hands the client's \<open>Arguments\<close> string to \<open>url.Parse\<close> and reads the
  parameters with \<open>URL.Query\<close>. Both are functions of Go's standard library; the
  definitions below follow their code: \<open>unescape\<close> (percent decoding, with \<open>+\<close> read as a
  space in a query component only), \<open>parseQuery\<close>, \<open>getScheme\<close> and \<open>parse\<close>. The validation
  of a host and user part (\<open>parseAuthority\<close>), which is only reached for a text that
  starts with \<open>//\<close>, is a parameter.
\<close>

definition ishex :: "char \<Rightarrow> bool" where
  "ishex c =
     (let n = (of_char c :: nat)
      in (48 \<le> n \<and> n \<le> 57) \<or> (97 \<le> n \<and> n \<le> 102) \<or> (65 \<le> n \<and> n \<le> 70))"

definition unhex :: "char \<Rightarrow> nat" where
  "unhex c =
     (let n = (of_char c :: nat)
      in if 48 \<le> n \<and> n \<le> 57 then n - 48
         else if 97 \<le> n \<and> n \<le> 102 then n - 97 + 10
         else if 65 \<le> n \<and> n \<le> 70 then n - 65 + 10
         else 0)"

definition EscapeError :: go_error where
  "EscapeError = Fundamental ''invalid URL escape''"

text \<open>\<open>unescape\<close> in the modes of a path or fragment (\<open>inQuery = False\<close>) and of a query component.\<close>

fun unescape :: "bool \<Rightarrow> string \<Rightarrow> go_error + string" where
  "unescape inQuery [] = Inr []"
| "unescape inQuery (c # cs) =
     (if c = CHR ''%'' then
        (case cs of
           a # b # rest \<Rightarrow>
             (if ishex a \<and> ishex b
              then (case unescape inQuery rest of
                      Inl err \<Rightarrow> Inl err
                    | Inr t \<Rightarrow> Inr (char_of (unhex a * 16 + unhex b) # t))
              else Inl EscapeError)
         | _ \<Rightarrow> Inl EscapeError)
      else
        (case unescape inQuery cs of
           Inl err \<Rightarrow> Inl err
         | Inr t \<Rightarrow> Inr ((if c = CHR ''+'' \<and> inQuery then CHR '' '' else c) # t)))"

definition QueryUnescape :: "string \<Rightarrow> go_error + string" where
  "QueryUnescape s = unescape True s"

text \<open>
  \<open>parseQuery\<close>: cut the text at each \<open>&\<close>; a piece with a semicolon, an empty piece and a
  piece whose key or value does not unescape are skipped; every other piece appends its
  value to the list stored under its key.
\<close>

definition parsePair :: "Values \<Rightarrow> string \<Rightarrow> Values" where
  "parsePair m piece =
     (if CHR '';'' \<in> set piece then m
      else if piece = [] then m
      else
        (case strings_Cut piece (CHR ''='') of
           (k, v) \<Rightarrow>
             (case QueryUnescape k of
                Inl err1 \<Rightarrow> m
              | Inr key \<Rightarrow>
                  (case QueryUnescape v of
                     Inl err1 \<Rightarrow> m
                   | Inr val \<Rightarrow>
                       m(key \<mapsto> (case m key of None \<Rightarrow> [] | Some vs \<Rightarrow> vs) @ [val])))))"

function parseQuery :: "Values \<Rightarrow> string \<Rightarrow> Values" where
  "parseQuery m query =
     (if query = [] then m
      else parseQuery (parsePair m (fst (strings_Cut query (CHR ''&''))))
                      (snd (strings_Cut query (CHR ''&''))))"
  by pat_completeness auto
termination
proof (relation "measure (\<lambda>(m, query). length query)")
  show "wf (measure (\<lambda>(m, query). length query))"
    by simp
next
  fix m :: Values and query :: string
  assume "query \<noteq> []"
  moreover have "length (dropWhile (\<lambda>c. c \<noteq> CHR ''&'') query) \<le> length query"
    by (rule length_dropWhile_le)
  ultimately show
    "((parsePair m (fst (strings_Cut query (CHR ''&''))), snd (strings_Cut query (CHR ''&''))),
      (m, query)) \<in> measure (\<lambda>(m, query). length query)"
    by (cases query) (auto simp: strings_Cut_def)
qed

declare parseQuery.simps [simp del]

record URL =
  Scheme :: string
  Opaque :: string
  Authority :: string
  URL_Path :: string
  RawQuery :: string
  ForceQuery :: bool
  Fragment :: string

definition URL_Query :: "URL \<Rightarrow> Values" where
  "URL_Query u = parseQuery Map.empty (RawQuery u)"

definition stringContainsCTLByte :: "string \<Rightarrow> bool" where
  "stringContainsCTLByte s = (\<exists>c \<in> set s. (of_char c :: nat) < 32 \<or> (of_char c :: nat) = 127)"

definition isLetter :: "char \<Rightarrow> bool" where
  "isLetter c =
     (let n = (of_char c :: nat) in (97 \<le> n \<and> n \<le> 122) \<or> (65 \<le> n \<and> n \<le> 90))"

definition isSchemeExtra :: "char \<Rightarrow> bool" where
  "isSchemeExtra c =
     (let n = (of_char c :: nat)
      in (48 \<le> n \<and> n \<le> 57) \<or> c = CHR ''+'' \<or> c = CHR ''-'' \<or> c = CHR ''.'')"

text \<open>
  The loop of \<open>getScheme\<close>; \<open>pre\<close> is the text already scanned, \<open>rawURL[:i]\<close>, so \<open>i = 0\<close> is
  \<open>pre = []\<close>.
\<close>

fun getScheme_loop :: "string \<Rightarrow> string \<Rightarrow> string \<Rightarrow> go_error + (string \<times> string)" where
  "getScheme_loop rawURL pre [] = Inr ([], rawURL)"
| "getScheme_loop rawURL pre (c # cs) =
     (if isLetter c then getScheme_loop rawURL (pre @ [c]) cs
      else if isSchemeExtra c then
        (if pre = [] then Inr ([], rawURL) else getScheme_loop rawURL (pre @ [c]) cs)
      else if c = CHR '':'' then
        (if pre = [] then Inl (Fundamental ''missing protocol scheme'') else Inr (pre, cs))
      else Inr ([], rawURL))"

definition getScheme :: "string \<Rightarrow> go_error + (string \<times> string)" where
  "getScheme rawURL = getScheme_loop rawURL [] rawURL"

definition emptyURL :: URL where
  "emptyURL = \<lparr>Scheme = [], Opaque = [], Authority = [], URL_Path = [], RawQuery = [],
               ForceQuery = False, Fragment = []\<rparr>"

text \<open>\<open>parse(rawURL, viaRequest = false)\<close>.\<close>

definition parse :: "(string \<Rightarrow> go_error option) \<Rightarrow> string \<Rightarrow> go_error + URL" where
  "parse parseAuthority rawURL =
     (if stringContainsCTLByte rawURL
      then Inl (Fundamental ''net/url: invalid control character in URL'')
      else if rawURL = ''*'' then Inr (emptyURL\<lparr>URL_Path := ''*''\<rparr>)
      else
        (case getScheme rawURL of
           Inl err \<Rightarrow> Inl err
         | Inr (scheme, rest0) \<Rightarrow>
             (let force = (rest0 \<noteq> [] \<and> last rest0 = CHR ''?'' \<and>
                           length (filter (\<lambda>c. c = CHR ''?'') rest0) = 1);
                  rest = (if force then butlast rest0 else fst (strings_Cut rest0 (CHR ''?'')));
                  rawq = (if force then [] else snd (strings_Cut rest0 (CHR ''?'')));
                  u = emptyURL\<lparr>Scheme := strings_ToLower scheme, RawQuery := rawq,
                                ForceQuery := force\<rparr>
              in if \<not> strings_HasPrefix rest ''/'' \<and> scheme \<noteq> []
                 then Inr (u\<lparr>Opaque := rest\<rparr>)
                 else if \<not> strings_HasPrefix rest ''/'' \<and>
                         CHR '':'' \<in> set (fst (strings_Cut rest (CHR ''/'')))
                 then Inl (Fundamental ''first path segment in URL cannot contain colon'')
                 else
                   (let hasAuth = ((scheme \<noteq> [] \<or> \<not> strings_HasPrefix rest ''///'') \<and>
                                   strings_HasPrefix rest ''//'');
                        authority = (if hasAuth then takeWhile (\<lambda>c. c \<noteq> CHR ''/'') (drop 2 rest)
                                     else []);
                        path = (if hasAuth then dropWhile (\<lambda>c. c \<noteq> CHR ''/'') (drop 2 rest)
                                else rest)
                    in case (if hasAuth then parseAuthority authority else None) of
                         Some err \<Rightarrow> Inl err
                       | None \<Rightarrow>
                           (case unescape False path of
                              Inl err \<Rightarrow> Inl err
                            | Inr p \<Rightarrow> Inr (u\<lparr>Authority := authority, URL_Path := p\<rparr>))))))"

text \<open>\<open>url.Parse\<close>: cut off the fragment, parse the rest, then unescape the fragment.\<close>

definition url_Parse :: "(string \<Rightarrow> go_error option) \<Rightarrow> string \<Rightarrow> go_error + URL" where
  "url_Parse parseAuthority rawURL =
     (case strings_Cut rawURL (CHR ''#'') of
        (u, frag) \<Rightarrow>
          (case parse parseAuthority u of
             Inl err \<Rightarrow> Inl err
           | Inr url \<Rightarrow>
               (if frag = [] then Inr url
                else (case unescape False frag of
                        Inl err \<Rightarrow> Inl err
                      | Inr f \<Rightarrow> Inr (url\<lparr>Fragment := f\<rparr>)))))"

section \<open>The WebSocket handler\<close>

text \<open>
  What a handler does to the outside, in the order it does it: the cookie handed to
  \<open>http.SetCookie\<close>, the message and status handed to \<open>http.Error\<close>, the successful
  protocol upgrade, the read of the first frame, the close frame written with
  \<open>websocket.FormatCloseMessage(code, text)\<close>, \<open>conn.Close\<close>, the call of the backend
  factory with its two arguments, \<open>slave.Close\<close>, and \<open>cancel\<close>. Log lines are left out.
\<close>

record Cookie =
  Name :: string
  Value :: string
  Path :: string

datatype effect =
    SetCookie Cookie
  | HttpError string int
  | Upgraded
  | ReadFrame
  | WriteClose int string
  | ConnClose
  | FactoryNew Values "Values option"
  | SlaveClose
  | CtxCancel

text \<open>
  The request as the handler reads it: \<open>Query\<close> is \<open>r.URL.Query()\<close>, \<open>Cookies\<close> the cookies
  the request carries (name and value, in order), \<open>Header\<close> is \<open>r.Header\<close>.
\<close>

record Request =
  Method :: string
  RemoteAddr :: string
  Query :: Values
  Cookies :: "(string \<times> string) list"
  Header :: Values

text \<open>\<open>r.Cookie(name)\<close>: the first cookie of that name, or \<open>ErrNoCookie\<close> (here \<open>None\<close>).\<close>

definition Request_Cookie :: "Request \<Rightarrow> string \<Rightarrow> string option" where
  "Request_Cookie r name = (if name = [] then None else map_of (Cookies r) name)"

definition resolveEnvFromRequest :: "Request \<Rightarrow> effect list \<times> string" where
  "resolveEnvFromRequest r =
     (let envValue0 = strings_TrimSpace (Get (Query r) envQueryParam);
          w = (if envValue0 \<noteq> []
               then [SetCookie \<lparr>Name = envCookieName, Value = envValue0, Path = ''/''\<rparr>]
               else []);
          envValue = (if envValue0 \<noteq> [] then envValue0
                      else (case Request_Cookie r envCookieName of
                              Some v \<Rightarrow> v
                            | None \<Rightarrow> envValue0))
      in if envValue = [] then (w, envValueProd) else (w, strings_ToLower envValue))"

text \<open>
  The fields of \<open>server.options\<close> that the handler and \<open>processWSConn\<close> branch on. The
  options that are only passed on to the bridge (write permission, reconnect, fixed size)
  are left out together with the bridge.
\<close>

record Options =
  Once :: bool
  MaxConnection :: int
  PassHeaders :: bool
  Credential :: string
  PermitArguments :: bool

record InitMessage =
  AuthToken :: string
  Arguments :: string

definition TextMessage :: int where
  "TextMessage = 1"

text \<open>
  What the collaborators answer during one connection: the upgrader, the first
  \<open>conn.ReadMessage\<close> (an error, or a frame type and payload), \<open>json.Unmarshal\<close> into an
  \<open>InitMessage\<close>, the host validation of \<open>net/url\<close>, the backend factory (an error or a
  slave), the title template, the construction of the bridge and its \<open>Run\<close>.
\<close>

record Collab =
  Upgrade :: "go_error option"
  ReadMessage :: "go_error + (int \<times> string)"
  json_Unmarshal :: "string \<Rightarrow> go_error + InitMessage"
  parseAuthority :: "string \<Rightarrow> go_error option"
  factory_New :: "Values \<Rightarrow> Values option \<Rightarrow> go_error option"
  title_Execute :: "go_error option"
  webtty_New :: "go_error option"
  tty_Run :: "go_error option"

definition processWSConn ::
  "Options \<Rightarrow> Collab \<Rightarrow> Values option \<Rightarrow> Values \<Rightarrow> effect list \<times> go_error option" where
  "processWSConn opts io headers httpQueryParams =
     (case ReadMessage io of
        Inl err \<Rightarrow> ([ReadFrame], Some (Wrapped ''failed to authenticate websocket connection'' err))
      | Inr (typ, initLine) \<Rightarrow>
          if typ \<noteq> TextMessage
          then ([ReadFrame],
                Some (Fundamental
                  ''failed to authenticate websocket connection: invalid message type''))
          else
            (case json_Unmarshal io initLine of
               Inl err \<Rightarrow>
                 ([ReadFrame], Some (Wrapped ''failed to authenticate websocket connection'' err))
             | Inr init \<Rightarrow>
                 if AuthToken init \<noteq> Credential opts
                 then ([ReadFrame], Some (Fundamental ''failed to authenticate websocket connection''))
                 else
                   (let queryPath = (if PermitArguments opts \<and> Arguments init \<noteq> []
                                     then Arguments init else ''?'')
                    in case url_Parse (parseAuthority io) queryPath of
                         Inl err \<Rightarrow> ([ReadFrame], Some (Wrapped ''failed to parse arguments'' err))
                       | Inr query \<Rightarrow>
                           (let params = URL_Query query ++ httpQueryParams
                            in case factory_New io params headers of
                                 Some err \<Rightarrow>
                                   ([ReadFrame, FactoryNew params headers],
                                    Some (Wrapped ''failed to create backend'' err))
                               | None \<Rightarrow>
                                   (case title_Execute io of
                                      Some err \<Rightarrow>
                                        ([ReadFrame, FactoryNew params headers, SlaveClose],
                                         Some (Wrapped ''failed to fill window title template'' err))
                                    | None \<Rightarrow>
                                        (case webtty_New io of
                                           Some err \<Rightarrow>
                                             ([ReadFrame, FactoryNew params headers, SlaveClose],
                                              Some (Wrapped ''failed to create webtty'' err))
                                         | None \<Rightarrow>
                                             ([ReadFrame, FactoryNew params headers, SlaveClose],
                                              tty_Run io)))))))"

text \<open>
  The state shared by all requests of one handler: the server, the \<open>int64\<close> behind \<open>once\<close>,
  the connection counter and whether \<open>cancel\<close> has been called.
\<close>

record World =
  server :: Server
  once :: "64 word"
  connections :: int
  cancelled :: bool

definition newWorld :: World where
  "newWorld = \<lparr>server = newServer, once = 0, connections = 0, cancelled = False\<rparr>"

text \<open>\<open>atomic.CompareAndSwapInt64(addr, old, new)\<close> on the value at \<open>addr\<close>.\<close>

definition CompareAndSwapInt64 :: "64 word \<Rightarrow> 64 word \<Rightarrow> 64 word \<Rightarrow> bool \<times> 64 word" where
  "CompareAndSwapInt64 v old new = (if v = old then (True, new) else (False, v))"

text \<open>
  Modelled from the spec: the connection counter (\<open>counter.add\<close>, \<open>counter.done\<close>), whose
  code is not among the sources. \<open>add(n)\<close> increases the live count by \<open>n\<close> and returns the
  new total; \<open>done()\<close> decreases it by one and returns the new total.
\<close>

definition counter_add :: "int \<Rightarrow> World \<Rightarrow> int \<times> World" where
  "counter_add n w = (connections w + n, w\<lparr>connections := connections w + n\<rparr>)"

definition counter_done :: "World \<Rightarrow> int \<times> World" where
  "counter_done w = (connections w - 1, w\<lparr>connections := connections w - 1\<rparr>)"

text \<open>
  The handler up to the point where it holds a ticket (or has answered): environment,
  the \<open>once\<close> claim, admission.
\<close>

definition admit :: "Options \<Rightarrow> Request \<Rightarrow> World \<Rightarrow> effect list \<times> (string \<times> sessionGuard) option \<times> World" where
  "admit opts r w =
     (case resolveEnvFromRequest r of
        (ck, e) \<Rightarrow>
          (let cas = (if Once opts then CompareAndSwapInt64 (once w) 0 1 else (True, once w))
           in if \<not> fst cas
              then (ck @ [HttpError ''Server is shutting down'' 503], None, w)
              else
                (case beginManagedSession e (server w) of
                   (Inl err, server') \<Rightarrow>
                     (ck @ [HttpError (if err = errServerDestroyed then ''Server is unavailable''
                                       else err) 503],
                      None, w\<lparr>once := snd cas, server := server'\<rparr>)
                 | (Inr guard, server') \<Rightarrow>
                     (ck, Some (e, guard), w\<lparr>once := snd cas, server := server'\<rparr>))))"

text \<open>
  The body after admission, up to its return. The result carries the two variables
  the deferred functions read: \<open>counterIncremented\<close> and \<open>sessionShouldDecommission\<close>.
  \<open>conn.Close\<close> is deferred after the upgrade and so runs first on return.
\<close>

definition serve ::
  "Options \<Rightarrow> Collab \<Rightarrow> Request \<Rightarrow> string \<Rightarrow> World \<Rightarrow> effect list \<times> bool \<times> bool \<times> World" where
  "serve opts io r e w =
     (if Method r \<noteq> ''GET'' then ([HttpError ''Method not allowed'' 405], False, False, w)
      else
        (case counter_add 1 w of
           (num, w1) \<Rightarrow>
             (case Upgrade io of
                Some err \<Rightarrow> ([], True, False, w1)
              | None \<Rightarrow>
                  if MaxConnection opts \<noteq> 0 \<and> num > MaxConnection opts
                  then ([Upgraded, WriteClose 4000 ''Another session is active'', ConnClose],
                        True, False, w1)
                  else
                    (let headers = (if PassHeaders opts then Some (Header r) else None)
                     in case processWSConn opts io headers (Query r) of
                          (fx, err) \<Rightarrow>
                            ([Upgraded] @ fx @ [ConnClose], True,
                             (if e \<noteq> envValueDev then shouldDecommission err else False), w1)))))"

text \<open>
  The body reaches \<open>processWSConn\<close>: the method is \<open>GET\<close>, the upgrade succeeded and the count
  returned by \<open>counter.add(1)\<close> does not exceed a non-zero \<open>MaxConnection\<close>.
\<close>

definition reaches_bridge :: "Options \<Rightarrow> Collab \<Rightarrow> Request \<Rightarrow> World \<Rightarrow> bool" where
  "reaches_bridge opts io r w =
     (Method r = ''GET'' \<and> Upgrade io = None \<and>
      \<not> (MaxConnection opts \<noteq> 0 \<and> fst (counter_add 1 w) > MaxConnection opts))"

text \<open>The two deferred functions, in the order they run: the counter, then the ticket.\<close>

definition release :: "Options \<Rightarrow> sessionGuard \<Rightarrow> bool \<Rightarrow> bool \<Rightarrow> World \<Rightarrow> effect list \<times> World" where
  "release opts guard counterIncremented sessionShouldDecommission w =
     (let w1 = (if counterIncremented then snd (counter_done w) else w);
          fx = (if counterIncremented \<and> Once opts then [CtxCancel] else []);
          w2 = (if counterIncremented \<and> Once opts then w1\<lparr>cancelled := True\<rparr> else w1)
      in (fx, w2\<lparr>server := snd (finish guard sessionShouldDecommission (server w2))\<rparr>))"

text \<open>The handler that \<open>generateHandleWS\<close> returns, run from entry to return.\<close>

definition generateHandleWS :: "Options \<Rightarrow> Collab \<Rightarrow> Request \<Rightarrow> World \<Rightarrow> effect list \<times> World" where
  "generateHandleWS opts io r w =
     (case admit opts r w of
        (fx, None, w1) \<Rightarrow> (fx, w1)
      | (fx, Some (e, guard), w1) \<Rightarrow>
          (case serve opts io r e w1 of
             (fx2, counterIncremented, sessionShouldDecommission, w2) \<Rightarrow>
               (case release opts guard counterIncremented sessionShouldDecommission w2 of
                  (fx3, w3) \<Rightarrow> (fx @ fx2 @ fx3, w3))))"

text \<open>The health gate around a handler.\<close>

definition wrapUnhealthy ::
  "(Request \<Rightarrow> World \<Rightarrow> effect list \<times> World) \<Rightarrow> Request \<Rightarrow> World \<Rightarrow> effect list \<times> World" where
  "wrapUnhealthy handler r w =
     (if isUnhealthy (server w) then ([HttpError ''session closed'' 500], w)
      else handler r w)"

subsection \<open>Concurrent requests\<close>

text \<open>
  A session stays inside \<open>processWSConn\<close> for as long as the bridge runs, and other requests
  arrive meanwhile. \<open>Arrive\<close> runs a request up to the return of its body and keeps what its
  deferred functions will need; \<open>Leave i\<close> runs the deferred functions of the \<open>i\<close>-th request
  that was admitted, once. \<open>hrun\<close> returns what each event did to the outside.
\<close>

record pending =
  p_guard :: sessionGuard
  p_counterIncremented :: bool
  p_sessionShouldDecommission :: bool
  p_left :: bool

datatype hevent = Arrive Request Collab | Leave nat

record hsys =
  world :: World
  inflight :: "pending list"

fun hstep :: "Options \<Rightarrow> hsys \<Rightarrow> hevent \<Rightarrow> effect list \<times> hsys" where
  "hstep opts s (Arrive r io) =
     (case admit opts r (world s) of
        (fx, None, w1) \<Rightarrow> (fx, s\<lparr>world := w1\<rparr>)
      | (fx, Some (e, guard), w1) \<Rightarrow>
          (case serve opts io r e w1 of
             (fx2, ci, sd, w2) \<Rightarrow>
               (fx @ fx2,
                \<lparr>world = w2,
                 inflight = inflight s @
                   [\<lparr>p_guard = guard, p_counterIncremented = ci,
                     p_sessionShouldDecommission = sd, p_left = False\<rparr>]\<rparr>)))"
| "hstep opts s (Leave i) =
     (if i < length (inflight s) \<and> \<not> p_left (inflight s ! i)
      then
        (let p = inflight s ! i
         in case release opts (p_guard p) (p_counterIncremented p)
                   (p_sessionShouldDecommission p) (world s) of
              (fx, w) \<Rightarrow> (fx, \<lparr>world = w, inflight = (inflight s)[i := p\<lparr>p_left := True\<rparr>]\<rparr>))
      else ([], s))"

fun hrun :: "Options \<Rightarrow> hsys \<Rightarrow> hevent list \<Rightarrow> effect list list \<times> hsys" where
  "hrun opts s [] = ([], s)"
| "hrun opts s (ev # evs) =
     (case hstep opts s ev of
        (fx, s1) \<Rightarrow> (case hrun opts s1 evs of (fxs, s2) \<Rightarrow> (fx # fxs, s2)))"

section \<open>Example inputs\<close>

text \<open>Concrete runs, requests and collaborators at which the properties below are evaluated.\<close>

definition example_calls :: "call list" where
  "example_calls = [Begin ''prod'', Begin ''dev'', Begin ''prod'']"

definition decommissioning_ops :: "server_op list" where
  "decommissioning_ops = [DoBegin ''prod'', DoFinish \<lparr>env = ''prod''\<rparr> True]"

definition later_ops :: "server_op list" where
  "later_ops = [DoBegin ''dev'', DoFinish \<lparr>env = ''prod''\<rparr> False, DoBegin ''prod'']"

definition example_init :: "string \<Rightarrow> InitMessage" where
  "example_init args = \<lparr>AuthToken = ''secret'', Arguments = args\<rparr>"

definition example_io :: "string \<Rightarrow> Collab" where
  "example_io args =
     \<lparr>Upgrade = None,
      ReadMessage = Inr (1, ''{}''),
      json_Unmarshal = (\<lambda>line. Inr (example_init args)),
      parseAuthority = (\<lambda>a. None),
      factory_New = (\<lambda>params headers. None),
      title_Execute = None,
      webtty_New = None,
      tty_Run = Some ErrMasterClosed\<rparr>"

definition example_opts :: Options where
  "example_opts =
     \<lparr>Once = False, MaxConnection = 0, PassHeaders = False, Credential = ''secret'',
      PermitArguments = True\<rparr>"

definition example_request :: "string \<Rightarrow> Values \<Rightarrow> Request" where
  "example_request m q =
     \<lparr>Method = m, RemoteAddr = ''127.0.0.1:4000'', Query = q, Cookies = [], Header = Map.empty\<rparr>"

definition decommissioned_world :: World where
  "decommissioned_world =
     newWorld\<lparr>server := exec_ops (exec_ops newServer decommissioning_ops) later_ops\<rparr>"




definition blank_env_request :: Request where
  "blank_env_request = example_request ''GET'' [''ENV'' \<mapsto> [''  '']]"

definition empty_cookie_request :: Request where
  "empty_cookie_request = (example_request ''GET'' Map.empty)\<lparr>Cookies := [(''gotty.env'', [])]\<rparr>"

definition dev_request :: Request where
  "dev_request = example_request ''GET'' [''ENV'' \<mapsto> [''dev'']]"

definition limited_opts :: Options where
  "limited_opts = example_opts\<lparr>MaxConnection := 1\<rparr>"

definition busy_world :: World where
  "busy_world = newWorld\<lparr>connections := 1\<rparr>"

definition once_opts :: Options where
  "once_opts = example_opts\<lparr>Once := True\<rparr>"

definition hsys0 :: hsys where
  "hsys0 = \<lparr>world = newWorld, inflight = []\<rparr>"

definition destroyed_hsys :: hsys where
  "destroyed_hsys = \<lparr>world = decommissioned_world, inflight = []\<rparr>"

definition post_arrival :: hevent where
  "post_arrival = Arrive (example_request ''POST'' Map.empty) (example_io ''?'')"

definition get_arrival :: hevent where
  "get_arrival = Arrive (example_request ''GET'' Map.empty) (example_io ''?'')"

definition later_events :: "hevent list" where
  "later_events = [Leave 0, get_arrival]"

section \<open>Properties of the session guard\<close>

subsection \<open>Release\<close>

lemma finish_dev: "env g = envValueDev \<Longrightarrow> finish g d s = (False, s)"
  by (simp add: finish_def)

lemma finish_prod_activeSession:
  "env g \<noteq> envValueDev \<Longrightarrow> \<not> activeSession (snd (finish g d s))"
  by (simp add: finish_def Let_def markUnhealthy_def)

text \<open>
  C9. Releasing a ticket is idempotent: for every ticket, every decommission argument and
  every server state, a second \<open>finish\<close> with the same argument leaves the server, and so
  \<open>activeSession\<close> and \<open>decommissioned\<close>, as the first call left it, and returns \<open>false\<close>; a
  call returns \<open>true\<close> exactly when it moved \<open>decommissioned\<close> from \<open>false\<close> to \<open>true\<close>.
\<close>

theorem finish_idempotent:
  "snd (finish guard d (snd (finish guard d s))) = snd (finish guard d s) \<and>
   fst (finish guard d (snd (finish guard d s))) = False \<and>
   fst (finish guard d s) = (\<not> decommissioned s \<and> decommissioned (snd (finish guard d s)))"
  by (simp add: finish_def Let_def markUnhealthy_def)

text \<open>
  The second call is a no-op only for the same argument: after a release without
  decommissioning, a later \<open>finish(true)\<close> on the same ticket still decommissions the server.
\<close>

lemma finish_again_with_decommission:
  "snd (finish \<lparr>env = ''prod''\<rparr> True (snd (finish \<lparr>env = ''prod''\<rparr> False newServer)))
     \<noteq> snd (finish \<lparr>env = ''prod''\<rparr> False newServer)"
  by (simp add: finish_def newServer_def envValueDev_def Let_def markUnhealthy_def)

subsection \<open>The dev environment\<close>




subsection \<open>Mutual exclusion of prod sessions\<close>


lemma filter_update_keep:
  "i < length xs \<Longrightarrow> \<not> P (xs ! i) \<Longrightarrow> \<not> P y \<Longrightarrow> filter P (xs[i := y]) = filter P xs"
  by (induction xs arbitrary: i) (auto split: nat.splits)

lemma filter_update_single:
  "i < length xs \<Longrightarrow> P (xs ! i) \<Longrightarrow> length (filter P xs) \<le> 1 \<Longrightarrow> \<not> P y
     \<Longrightarrow> filter P (xs[i := y]) = []"
proof (induction xs arbitrary: i)
  case Nil
  then show ?case by simp
next
  case (Cons x xs)
  show ?case
  proof (cases i)
    case 0
    with Cons.prems show ?thesis by (auto split: if_splits)
  next
    case (Suc j)
    with Cons.prems have j: "j < length xs" "P (xs ! j)" by auto
    then have ne: "filter P xs \<noteq> []"
      by (auto simp: filter_empty_conv)
    with Cons.prems have "\<not> P x" by (auto split: if_splits)
    with Cons.prems Cons.IH[of j] j Suc show ?thesis by auto
  qed
qed


lemma guard_inv_sys0: "guard_inv sys0"
  by (simp add: guard_inv_def sys0_def live_prod_def newServer_def)

lemma step_guard_inv:
  assumes "guard_inv s" and "step s c = Some s'"
  shows "guard_inv s'"
proof (cases c)
  case (Begin e)
  with assms show ?thesis
    by (auto simp: guard_inv_def live_prod_def beginManagedSession_def split: if_splits)
next
  case (Finish i d)
  with assms have i: "i < length (tickets s)" "\<not> snd (tickets s ! i)"
    by (auto split: if_splits)
  let ?P = "\<lambda>t. \<not> snd t \<and> env (fst t) \<noteq> envValueDev"
  show ?thesis
  proof (cases "env (fst (tickets s ! i)) = envValueDev")
    case True
    with i have "filter ?P ((tickets s)[i := (fst (tickets s ! i), True)]) = filter ?P (tickets s)"
      by (intro filter_update_keep) auto
    with assms Finish i True show ?thesis
      by (auto simp: guard_inv_def live_prod_def finish_dev)
  next
    case False
    with i assms(1) have *: "filter ?P ((tickets s)[i := (fst (tickets s ! i), True)]) = []"
      by (intro filter_update_single) (auto simp: guard_inv_def live_prod_def)
    from assms(2) Finish i
    have s': "s' = \<lparr>srv = snd (finish (fst (tickets s ! i)) d (srv s)),
                 tickets = (tickets s)[i := (fst (tickets s ! i), True)]\<rparr>"
      by simp
    show ?thesis
      unfolding guard_inv_def live_prod_def
      by (simp add: s' * finish_prod_activeSession [OF False])
  qed
qed

lemma run_guard_inv: "guard_inv s \<Longrightarrow> run s cs = Some s' \<Longrightarrow> guard_inv s'"
  by (induction cs arbitrary: s) (auto split: option.splits dest: step_guard_inv)


text \<open>
  C1. In every state \<open>s\<close> reached from the fresh server by an interleaving of admissions and
  releases (each ticket released by its handler at most once): at most one prod ticket is
  live; a prod admission that succeeds leaves exactly one live prod ticket; while a prod
  ticket is live every admission with \<open>env\<close> other than \<open>dev\<close> fails with \<open>errSessionActive\<close>
  and changes nothing; and the release of a live prod ticket leaves \<open>activeSession\<close> clear
  and no prod ticket live.
\<close>

theorem prod_mutual_exclusion:
  assumes "run sys0 cs = Some s"
  shows "length (live_prod s) \<le> 1 \<and>
         (e \<noteq> envValueDev \<longrightarrow> (\<exists>g. fst (beginManagedSession e (srv s)) = Inr g) \<longrightarrow>
            (\<exists>s'. step s (Begin e) = Some s' \<and> length (live_prod s') = 1)) \<and>
         (live_prod s \<noteq> [] \<longrightarrow> e \<noteq> envValueDev \<longrightarrow>
            beginManagedSession e (srv s) = (Inl errSessionActive, srv s)) \<and>
         (i < length (tickets s) \<longrightarrow> \<not> snd (tickets s ! i) \<longrightarrow>
          env (fst (tickets s ! i)) \<noteq> envValueDev \<longrightarrow>
            (\<exists>s'. step s (Finish i d) = Some s' \<and> \<not> activeSession (srv s') \<and> live_prod s' = []))"
proof -
  have inv: "guard_inv s"
    using guard_inv_sys0 assms by (rule run_guard_inv)
  have one: "length (live_prod s) \<le> 1"
    using inv by (simp add: guard_inv_def)
  have adm: "\<exists>s'. step s (Begin e) = Some s' \<and> length (live_prod s') = 1"
    if "e \<noteq> envValueDev" and "\<exists>g. fst (beginManagedSession e (srv s)) = Inr g"
  proof -
    from that have free: "\<not> decommissioned (srv s)" "\<not> activeSession (srv s)"
      by (auto simp: beginManagedSession_def split: if_splits)
    with inv have "live_prod s = []"
      by (simp add: guard_inv_def)
    with free that(1) show ?thesis
      by (simp add: beginManagedSession_def live_prod_def)
  qed
  have busy: "beginManagedSession e (srv s) = (Inl errSessionActive, srv s)"
    if "live_prod s \<noteq> []" and "e \<noteq> envValueDev"
    using inv that by (simp add: guard_inv_def beginManagedSession_def)
  have rel: "\<exists>s'. step s (Finish i d) = Some s' \<and> \<not> activeSession (srv s') \<and> live_prod s' = []"
    if i: "i < length (tickets s)" "\<not> snd (tickets s ! i)"
      and p: "env (fst (tickets s ! i)) \<noteq> envValueDev"
  proof -
    let ?s' = "\<lparr>srv = snd (finish (fst (tickets s ! i)) d (srv s)),
               tickets = (tickets s)[i := (fst (tickets s ! i), True)]\<rparr>"
    have st: "step s (Finish i d) = Some ?s'"
      using i by simp
    with inv have "guard_inv ?s'"
      by (rule step_guard_inv)
    moreover have "\<not> activeSession (srv ?s')"
      using p by (simp add: finish_prod_activeSession)
    ultimately have "live_prod ?s' = []"
      by (simp add: guard_inv_def)
    with st \<open>\<not> activeSession (srv ?s')\<close> show ?thesis
      by blast
  qed
  from one adm busy rel show ?thesis
    by blast
qed

text \<open>The example run: a prod admission, a dev admission, a second prod admission.\<close>

lemma example_run:
  "run sys0 example_calls =
     Some \<lparr>srv = newServer\<lparr>activeSession := True\<rparr>,
           tickets = [(\<lparr>env = ''prod''\<rparr>, False), (\<lparr>env = ''dev''\<rparr>, False)]\<rparr>"
  by (simp add: example_calls_def sys0_def newServer_def beginManagedSession_def envValueDev_def)

theorem prod_mutual_exclusion_witness:
  "run sys0 example_calls \<noteq> None \<and>
   length (live_prod (the (run sys0 example_calls))) = 1 \<and>
   beginManagedSession ''prod'' (srv (the (run sys0 example_calls)))
     = (Inl errSessionActive, srv (the (run sys0 example_calls))) \<and>
   (\<exists>s'. step (the (run sys0 example_calls)) (Finish 0 True) = Some s' \<and>
         \<not> activeSession (srv s') \<and> live_prod s' = [])"
  using prod_mutual_exclusion [OF example_run, of "''prod''" 0 True]
  by (simp add: example_run live_prod_def envValueDev_def)

text \<open>
  The restriction to handlers that release their ticket once matters: \<open>finish\<close> does not
  record that a ticket was released, so a second \<open>finish\<close> of the first prod ticket, called
  directly while a second prod ticket is live, clears \<open>activeSession\<close> and a third prod
  admission succeeds.
\<close>

lemma stale_finish_reopens_slot:
  "fst (beginManagedSession ''prod''
          (exec_ops newServer
             [DoBegin ''prod'', DoFinish \<lparr>env = ''prod''\<rparr> False, DoBegin ''prod'',
              DoFinish \<lparr>env = ''prod''\<rparr> False]))
     = Inr \<lparr>env = ''prod''\<rparr>"
  by (simp add: beginManagedSession_def finish_def newServer_def envValueDev_def Let_def)

subsection \<open>Decommissioning is one-way\<close>

lemma apply_op_decommissioned:
  "decommissioned s \<Longrightarrow> decommissioned (apply_op s x)"
  by (cases x) (simp_all add: beginManagedSession_def finish_def Let_def markUnhealthy_def)

lemma apply_op_health:
  "decommissioned s \<longrightarrow> isUnhealthy s \<Longrightarrow>
   decommissioned (apply_op s x) \<longrightarrow> isUnhealthy (apply_op s x)"
  by (cases x)
     (auto simp: beginManagedSession_def finish_def Let_def markUnhealthy_def isUnhealthy_def
           split: if_splits)

lemma exec_ops_decommissioned:
  "decommissioned s \<Longrightarrow> decommissioned (exec_ops s xs)"
  by (induction xs arbitrary: s) (simp_all add: apply_op_decommissioned)

lemma exec_ops_health:
  "decommissioned s \<longrightarrow> isUnhealthy s \<Longrightarrow>
   decommissioned (exec_ops s xs) \<longrightarrow> isUnhealthy (exec_ops s xs)"
proof (induction xs arbitrary: s)
  case Nil
  then show ?case by simp
next
  case (Cons x xs)
  from Cons.prems have "decommissioned (apply_op s x) \<longrightarrow> isUnhealthy (apply_op s x)"
    by (rule apply_op_health)
  then show ?case using Cons.IH by simp
qed

text \<open>
  C2. From any server state in which \<open>decommissioned\<close> implies \<open>unhealthy\<close> (the fresh server
  is one), once a sequence of operations has set \<open>decommissioned\<close>, then after any further
  sequence of operations the flag is still set, the server is unhealthy, the health gate
  answers every request with \<open>http.Error(w, "session closed", 500)\<close> without calling the
  wrapped handler, and every \<open>beginManagedSession\<close>, whatever its \<open>env\<close>, fails with
  \<open>errServerDestroyed\<close>.
\<close>

theorem decommission_one_way:
  assumes "decommissioned s \<longrightarrow> isUnhealthy s"
      and "decommissioned (exec_ops s xs)"
  shows "decommissioned (exec_ops (exec_ops s xs) ys) \<and>
         isUnhealthy (exec_ops (exec_ops s xs) ys) \<and>
         (server w = exec_ops (exec_ops s xs) ys \<longrightarrow>
            wrapUnhealthy handler r w = ([HttpError ''session closed'' 500], w)) \<and>
         fst (beginManagedSession e (exec_ops (exec_ops s xs) ys)) = Inl errServerDestroyed"
proof -
  let ?t = "exec_ops (exec_ops s xs) ys"
  have d: "decommissioned ?t"
    using assms(2) by (rule exec_ops_decommissioned)
  have "decommissioned (exec_ops s xs) \<longrightarrow> isUnhealthy (exec_ops s xs)"
    using assms(1) by (rule exec_ops_health)
  then have "decommissioned ?t \<longrightarrow> isUnhealthy ?t"
    by (rule exec_ops_health)
  with d have u: "isUnhealthy ?t" by simp
  from d u show ?thesis
    by (simp add: wrapUnhealthy_def beginManagedSession_def)
qed


theorem decommission_one_way_witness:
  "\<not> decommissioned newServer \<and>
   decommissioned (exec_ops newServer decommissioning_ops) \<and>
   decommissioned (server decommissioned_world) \<and>
   isUnhealthy (server decommissioned_world) \<and>
   wrapUnhealthy (generateHandleWS example_opts (example_io ''?''))
       (example_request ''GET'' Map.empty) decommissioned_world
     = ([HttpError ''session closed'' 500], decommissioned_world) \<and>
   fst (beginManagedSession ''dev'' (server decommissioned_world)) = Inl errServerDestroyed"
proof -
  have a: "decommissioned newServer \<longrightarrow> isUnhealthy newServer"
    by (simp add: newServer_def)
  have b: "decommissioned (exec_ops newServer decommissioning_ops)"
    by (simp add: decommissioning_ops_def newServer_def beginManagedSession_def finish_def
          Let_def markUnhealthy_def envValueDev_def)
  have c: "server decommissioned_world
             = exec_ops (exec_ops newServer decommissioning_ops) later_ops"
    by (simp add: decommissioned_world_def)
  have n: "\<not> decommissioned newServer"
    by (simp add: newServer_def)
  show ?thesis
    using n b
      decommission_one_way [OF a b,
        where w = decommissioned_world and ys = later_ops
          and handler = "generateHandleWS example_opts (example_io ''?'')"
          and r = "example_request ''GET'' Map.empty" and e = "''dev''"]
    by (simp add: c)
qed

section \<open>Properties of the handler\<close>

subsection \<open>The first frame\<close>

lemma processWSConn_read_error:
  "ReadMessage io = Inl err \<Longrightarrow>
   processWSConn opts io hdrs q =
     ([ReadFrame], Some (Wrapped ''failed to authenticate websocket connection'' err))"
  by (simp add: processWSConn_def)

lemma processWSConn_not_text:
  "ReadMessage io = Inr (typ, line) \<Longrightarrow> typ \<noteq> TextMessage \<Longrightarrow>
   processWSConn opts io hdrs q =
     ([ReadFrame],
      Some (Fundamental ''failed to authenticate websocket connection: invalid message type''))"
  by (simp add: processWSConn_def)

lemma processWSConn_bad_json:
  "ReadMessage io = Inr (TextMessage, line) \<Longrightarrow> json_Unmarshal io line = Inl err \<Longrightarrow>
   processWSConn opts io hdrs q =
     ([ReadFrame], Some (Wrapped ''failed to authenticate websocket connection'' err))"
  by (simp add: processWSConn_def)

lemma processWSConn_bad_token:
  "ReadMessage io = Inr (TextMessage, line) \<Longrightarrow> json_Unmarshal io line = Inr init \<Longrightarrow>
   AuthToken init \<noteq> Credential opts \<Longrightarrow>
   processWSConn opts io hdrs q =
     ([ReadFrame], Some (Fundamental ''failed to authenticate websocket connection''))"
  by (simp add: processWSConn_def)

subsection \<open>The decommission decision\<close>

lemma shouldDecommission_iff:
  "shouldDecommission err =
     (err = None \<or>
      (\<exists>e. err = Some e \<and>
           (Cause e = Some Canceled \<or> Cause e = Some DeadlineExceeded \<or>
            Cause e = Some ErrMasterClosed \<or> Cause e = Some ErrSlaveClosed)))"
  by (cases err) (simp_all add: shouldDecommission_def Let_def)

lemma serve_decision:
  "fst (snd (snd (serve opts io r e w))) =
     (e \<noteq> envValueDev \<and> reaches_bridge opts io r w \<and>
      shouldDecommission
        (snd (processWSConn opts io (if PassHeaders opts then Some (Header r) else None) (Query r))))"
  by (simp add: serve_def reaches_bridge_def counter_add_def Let_def
        split: option.splits prod.splits)

lemma serve_server: "server (snd (snd (snd (serve opts io r e w)))) = server w"
  by (simp add: serve_def counter_add_def Let_def split: option.splits prod.splits)

lemma release_server:
  "server (snd (release opts g ci sd w)) = snd (finish g sd (server w))"
  by (simp add: release_def counter_done_def Let_def)

lemma generateHandleWS_server:
  assumes "admit opts r w = (fx, Some (e, g), w1)"
  shows "server (snd (generateHandleWS opts io r w))
           = snd (finish g (fst (snd (snd (serve opts io r e w1)))) (server w1))"
proof -
  obtain fx2 ci sd w2 where sv: "serve opts io r e w1 = (fx2, ci, sd, w2)"
    by (cases "serve opts io r e w1") auto
  have "server w2 = server w1"
    using serve_server [of opts io r e w1] by (simp add: sv)
  then show ?thesis
    using assms release_server [of opts g ci sd w2]
    by (auto simp: generateHandleWS_def sv split: prod.splits)
qed

text \<open>
  C4. \<open>shouldDecommission(err)\<close> is true exactly when \<open>err\<close> is \<open>nil\<close> or \<open>pkgerrors.Cause(err)\<close>
  is one of the two errors of package \<open>context\<close> (\<open>Canceled\<close>, \<open>DeadlineExceeded\<close>) or one of
  the two bridge sentinels \<open>ErrMasterClosed\<close>, \<open>ErrSlaveClosed\<close>, and false for every other
  error. The handler's \<open>sessionShouldDecommission\<close> is that result only for a session whose
  environment is not \<open>dev\<close> and that reached \<open>processWSConn\<close>, and \<open>false\<close> otherwise; it is the
  argument of the ticket's \<open>finish\<close>.
\<close>

theorem shouldDecommission_classifier:
  "shouldDecommission err =
     (err = None \<or>
      (\<exists>c. err = Some c \<and>
           (Cause c = Some Canceled \<or> Cause c = Some DeadlineExceeded \<or>
            Cause c = Some ErrMasterClosed \<or> Cause c = Some ErrSlaveClosed))) \<and>
   fst (snd (snd (serve opts io r e w))) =
     (e \<noteq> envValueDev \<and> reaches_bridge opts io r w \<and>
      shouldDecommission
        (snd (processWSConn opts io (if PassHeaders opts then Some (Header r) else None)
                (Query r)))) \<and>
   (admit opts r w0 = (fx, Some (e, g), w) \<longrightarrow>
      server (snd (generateHandleWS opts io r w0)) =
        snd (finish g
               (e \<noteq> envValueDev \<and> reaches_bridge opts io r w \<and>
                shouldDecommission
                  (snd (processWSConn opts io
                          (if PassHeaders opts then Some (Header r) else None) (Query r))))
               (server w)))"
  using shouldDecommission_iff [of err] serve_decision [of opts io r e w]
    generateHandleWS_server [of opts r w0 fx e g w io]
  by simp

text \<open>
  A prod session on a fresh server whose bridge ends with \<open>ErrMasterClosed\<close>: the server is
  decommissioned when the handler returns.
\<close>

lemma parse_question_mark: "url_Parse (\<lambda>a. None) ''?'' = Inr (emptyURL\<lparr>ForceQuery := True\<rparr>)"
  by code_simp

lemma resolve_plain:
  "resolveEnvFromRequest (example_request m Map.empty) = ([], ''prod'')"
  by (simp add: resolveEnvFromRequest_def example_request_def Get_def strings_TrimSpace_def
        Request_Cookie_def envValueProd_def)

lemma admit_plain:
  "admit example_opts (example_request m Map.empty) newWorld
     = ([], Some (''prod'', \<lparr>env = ''prod''\<rparr>),
        newWorld\<lparr>server := newServer\<lparr>activeSession := True\<rparr>\<rparr>)"
  by (simp add: admit_def resolve_plain example_opts_def newWorld_def newServer_def
        beginManagedSession_def envValueDev_def)

lemma parseQuery_Nil: "parseQuery m [] = m"
  by (simp add: parseQuery.simps)

lemma processWSConn_example:
  "processWSConn example_opts (example_io ''?'') None Map.empty
     = ([ReadFrame, FactoryNew Map.empty None, SlaveClose], Some ErrMasterClosed)"
  by (simp add: processWSConn_def example_opts_def example_io_def example_init_def
        TextMessage_def parse_question_mark URL_Query_def emptyURL_def parseQuery_Nil)

theorem shouldDecommission_classifier_witness:
  "admit example_opts (example_request ''GET'' Map.empty) newWorld
     = ([], Some (''prod'', \<lparr>env = ''prod''\<rparr>),
        newWorld\<lparr>server := newServer\<lparr>activeSession := True\<rparr>\<rparr>) \<and>
   shouldDecommission (Some ErrMasterClosed) \<and>
   server (snd (generateHandleWS example_opts (example_io ''?'')
                  (example_request ''GET'' Map.empty) newWorld))
     = \<lparr>decommissioned = True, activeSession = False, unhealthy = 1\<rparr>"
proof -
  let ?r = "example_request ''GET'' Map.empty"
  let ?w = "newWorld\<lparr>server := newServer\<lparr>activeSession := True\<rparr>\<rparr>"
  have adm: "admit example_opts ?r newWorld = ([], Some (''prod'', \<lparr>env = ''prod''\<rparr>), ?w)"
    by (rule admit_plain)
  have rb: "reaches_bridge example_opts (example_io ''?'') ?r ?w"
    by (simp add: reaches_bridge_def example_opts_def example_io_def example_request_def)
  have pw: "processWSConn example_opts (example_io ''?'')
              (if PassHeaders example_opts then Some (Header ?r) else None) (Query ?r)
            = ([ReadFrame, FactoryNew Map.empty None, SlaveClose], Some ErrMasterClosed)"
    using processWSConn_example by (simp add: example_opts_def example_request_def)
  have sd: "shouldDecommission (Some ErrMasterClosed)"
    by (simp add: shouldDecommission_def)
  have fin: "snd (finish \<lparr>env = ''prod''\<rparr> True (newServer\<lparr>activeSession := True\<rparr>))
             = \<lparr>decommissioned = True, activeSession = False, unhealthy = 1\<rparr>"
    by (simp add: finish_def newServer_def envValueDev_def Let_def markUnhealthy_def)
  show ?thesis
    using shouldDecommission_classifier
      [of "Some ErrMasterClosed" example_opts "example_io ''?''" ?r "''prod''" ?w
          newWorld "[]" "\<lparr>env = ''prod''\<rparr>"]
    by (simp add: adm rb pw sd fin envValueDev_def)
qed

subsection \<open>Authentication before the backend\<close>

lemma processWSConn_rejects:
  assumes "ReadMessage io = Inl err0 \<or>
           (\<exists>t line. ReadMessage io = Inr (t, line) \<and>
              (t \<noteq> TextMessage \<or> (\<exists>err. json_Unmarshal io line = Inl err) \<or>
               (\<exists>init. json_Unmarshal io line = Inr init \<and> AuthToken init \<noteq> Credential opts)))"
  shows "\<exists>err. processWSConn opts io hdrs q = ([ReadFrame], Some err)"
proof (cases "ReadMessage io")
  case (Inl err)
  then show ?thesis by (simp add: processWSConn_read_error)
next
  case (Inr frame)
  obtain mt line where frame: "frame = (mt, line)" by (cases frame)
  show ?thesis
  proof (cases "mt = TextMessage")
    case False
    with Inr frame show ?thesis by (simp add: processWSConn_not_text)
  next
    case True
    note first = Inr [unfolded frame True]
    from assms Inr frame True
    consider (json) err where "json_Unmarshal io line = Inl err"
      | (token) init where "json_Unmarshal io line = Inr init" "AuthToken init \<noteq> Credential opts"
      by auto
    then show ?thesis
    proof cases
      case json
      with first show ?thesis by (simp add: processWSConn_bad_json)
    next
      case token
      with first show ?thesis by (simp add: processWSConn_bad_token)
    qed
  qed
qed

lemma processWSConn_factory:
  assumes "FactoryNew p h \<in> set (fst (processWSConn opts io hdrs q))"
  shows "\<exists>line init. ReadMessage io = Inr (TextMessage, line) \<and>
            json_Unmarshal io line = Inr init \<and> AuthToken init = Credential opts"
proof (rule ccontr)
  assume no: "\<not> ?thesis"
  have "ReadMessage io = Inl (Fundamental []) \<or>
        (\<exists>t line. ReadMessage io = Inr (t, line) \<and>
           (t \<noteq> TextMessage \<or> (\<exists>err. json_Unmarshal io line = Inl err) \<or>
            (\<exists>init. json_Unmarshal io line = Inr init \<and> AuthToken init \<noteq> Credential opts)))
        \<or> (\<exists>err. ReadMessage io = Inl err)"
  proof (cases "ReadMessage io")
    case (Inl err)
    then show ?thesis by blast
  next
    case (Inr frame)
    obtain mt line where frame: "frame = (mt, line)" by (cases frame)
    show ?thesis
    proof (cases "json_Unmarshal io line")
      case (Inl err)
      with Inr frame show ?thesis by blast
    next
      case json: (Inr init)
      with no Inr frame have "mt \<noteq> TextMessage \<or> AuthToken init \<noteq> Credential opts"
        by auto
      with Inr frame json show ?thesis by blast
    qed
  qed
  then obtain err where "processWSConn opts io hdrs q = ([ReadFrame], Some err)"
    using processWSConn_rejects [of io _ opts hdrs q] by blast
  with assms show False by simp
qed

text \<open>
  C7. Whenever the first frame is not a text frame, or its payload does not unmarshal
  into an \<open>InitMessage\<close>, or the parsed \<open>AuthToken\<close> differs from the configured credential
  (or no frame could be read at all), \<open>processWSConn\<close> returns an error and has done nothing
  but the read: the backend factory is not called. Conversely, if the factory was called,
  then a text frame was read, it unmarshalled, and its \<open>AuthToken\<close> equals the credential.
\<close>

theorem auth_before_backend:
  "((ReadMessage io = Inl err0 \<or>
     (\<exists>t line. ReadMessage io = Inr (t, line) \<and>
        (t \<noteq> TextMessage \<or> (\<exists>err. json_Unmarshal io line = Inl err) \<or>
         (\<exists>init. json_Unmarshal io line = Inr init \<and> AuthToken init \<noteq> Credential opts)))) \<longrightarrow>
      fst (processWSConn opts io hdrs q) = [ReadFrame] \<and>
      snd (processWSConn opts io hdrs q) \<noteq> None) \<and>
   (FactoryNew p h \<in> set (fst (processWSConn opts io hdrs q)) \<longrightarrow>
      (\<exists>line init. ReadMessage io = Inr (TextMessage, line) \<and>
          json_Unmarshal io line = Inr init \<and> AuthToken init = Credential opts))"
proof (intro conjI impI)
  assume a: "ReadMessage io = Inl err0 \<or>
     (\<exists>t line. ReadMessage io = Inr (t, line) \<and>
        (t \<noteq> TextMessage \<or> (\<exists>err. json_Unmarshal io line = Inl err) \<or>
         (\<exists>init. json_Unmarshal io line = Inr init \<and> AuthToken init \<noteq> Credential opts)))"
  from processWSConn_rejects [OF a, of hdrs q]
  show "fst (processWSConn opts io hdrs q) = [ReadFrame]"
    and "snd (processWSConn opts io hdrs q) \<noteq> None"
    by auto
next
  assume "FactoryNew p h \<in> set (fst (processWSConn opts io hdrs q))"
  then show "\<exists>line init. ReadMessage io = Inr (TextMessage, line) \<and>
          json_Unmarshal io line = Inr init \<and> AuthToken init = Credential opts"
    by (rule processWSConn_factory)
qed

text \<open>A wrong credential is rejected after the read; the right one reaches the factory.\<close>

theorem auth_before_backend_witness:
  "ReadMessage (example_io ''?'') = Inr (1, ''{}'') \<and>
   json_Unmarshal (example_io ''?'') ''{}'' = Inr (example_init ''?'') \<and>
   AuthToken (example_init ''?'') \<noteq> Credential (example_opts\<lparr>Credential := ''other''\<rparr>) \<and>
   fst (processWSConn (example_opts\<lparr>Credential := ''other''\<rparr>) (example_io ''?'') None Map.empty)
     = [ReadFrame] \<and>
   snd (processWSConn (example_opts\<lparr>Credential := ''other''\<rparr>) (example_io ''?'') None Map.empty)
     \<noteq> None \<and>
   FactoryNew Map.empty None
     \<in> set (fst (processWSConn example_opts (example_io ''?'') None Map.empty)) \<and>
   (\<exists>line init. ReadMessage (example_io ''?'') = Inr (TextMessage, line) \<and>
       json_Unmarshal (example_io ''?'') line = Inr init \<and>
       AuthToken init = Credential example_opts)"
proof -
  have rd: "ReadMessage (example_io ''?'') = Inr (1, ''{}'')"
    and js: "json_Unmarshal (example_io ''?'') ''{}'' = Inr (example_init ''?'')"
    by (simp_all add: example_io_def)
  have tk: "AuthToken (example_init ''?'') \<noteq> Credential (example_opts\<lparr>Credential := ''other''\<rparr>)"
    by (simp add: example_init_def)
  have fc: "FactoryNew Map.empty None
              \<in> set (fst (processWSConn example_opts (example_io ''?'') None Map.empty))"
    by (simp add: processWSConn_example)
  from rd js tk
  have bad: "ReadMessage (example_io ''?'') = Inl (Fundamental []) \<or>
     (\<exists>t line. ReadMessage (example_io ''?'') = Inr (t, line) \<and>
        (t \<noteq> TextMessage \<or> (\<exists>err. json_Unmarshal (example_io ''?'') line = Inl err) \<or>
         (\<exists>init. json_Unmarshal (example_io ''?'') line = Inr init \<and>
            AuthToken init \<noteq> Credential (example_opts\<lparr>Credential := ''other''\<rparr>))))"
    by blast
  show ?thesis
    using rd js tk fc bad
      auth_before_backend [of "example_io ''?''" "Fundamental []"
        "example_opts\<lparr>Credential := ''other''\<rparr>" None Map.empty Map.empty None]
      auth_before_backend [of "example_io ''?''" "Fundamental []" example_opts None Map.empty
        Map.empty None]
    by blast
qed

subsection \<open>Environment resolution\<close>





lemma trim_empty: "strings_TrimSpace [] = []"
  by (simp add: strings_TrimSpace_def)

lemma trim_blank: "strings_TrimSpace ''  '' = []"
  by code_simp




text \<open>
  The two other places where the resolution differs from a plain "non-empty parameter,
  else cookie": a parameter of white space only counts as absent, and a cookie with an
  empty value resolves to \<open>prod\<close>.
\<close>

lemma resolveEnv_blank_query:
  "Get (Query blank_env_request) ''ENV'' \<noteq> [] \<and>
   resolveEnvFromRequest blank_env_request = ([], ''prod'')"
  by (simp add: resolveEnvFromRequest_def blank_env_request_def example_request_def Get_def
        envQueryParam_def envCookieName_def envValueProd_def Request_Cookie_def trim_blank)

lemma resolveEnv_empty_cookie:
  "Request_Cookie empty_cookie_request ''gotty.env'' = Some [] \<and>
   resolveEnvFromRequest empty_cookie_request = ([], ''prod'')"
  by (simp add: resolveEnvFromRequest_def empty_cookie_request_def example_request_def Get_def
        envQueryParam_def envCookieName_def envValueProd_def Request_Cookie_def trim_empty)

subsection \<open>The connection limit\<close>

lemma admit_effects:
  "admit opts r w0 = (fx, Some x, w) \<Longrightarrow> fx = fst (resolveEnvFromRequest r)"
  by (auto simp: admit_def Let_def split: prod.splits sum.splits if_splits)

lemma resolve_effects:
  "fst (resolveEnvFromRequest r) = [] \<or> (\<exists>c. fst (resolveEnvFromRequest r) = [SetCookie c])"
  by (simp add: resolveEnvFromRequest_def Let_def)

lemma processWSConn_starts:
  "\<exists>rest. fst (processWSConn opts io hdrs q) = ReadFrame # rest"
  by (simp add: processWSConn_def Let_def split: sum.splits prod.splits option.splits)

lemma serve_exceeded:
  assumes "Method r = ''GET''" "Upgrade io = None"
    and "MaxConnection opts \<noteq> 0" "MaxConnection opts < fst (counter_add 1 w)"
  shows "serve opts io r e w =
           ([Upgraded, WriteClose 4000 ''Another session is active'', ConnClose], True, False,
            snd (counter_add 1 w))"
  using assms by (simp add: serve_def counter_add_def)

lemma serve_within:
  assumes "Method r = ''GET''" "Upgrade io = None"
    and "MaxConnection opts = 0 \<or> fst (counter_add 1 w) \<le> MaxConnection opts"
  shows "fst (serve opts io r e w) =
           [Upgraded] @
           fst (processWSConn opts io (if PassHeaders opts then Some (Header r) else None) (Query r))
           @ [ConnClose] \<and>
         fst (snd (serve opts io r e w))"
  using assms by (auto simp: serve_def counter_add_def Let_def split: prod.splits)

lemma release_effects:
  "fst (release opts g ci sd w) = (if ci \<and> Once opts then [CtxCancel] else [])"
  by (simp add: release_def Let_def)

lemma generateHandleWS_effects:
  assumes "admit opts r w0 = (fx, Some (e, g), w)"
  shows "fst (generateHandleWS opts io r w0) =
           fx @ fst (serve opts io r e w) @
           (if fst (snd (serve opts io r e w)) \<and> Once opts then [CtxCancel] else [])"
proof -
  obtain fx2 ci sd w2 where sv: "serve opts io r e w = (fx2, ci, sd, w2)"
    by (cases "serve opts io r e w") auto
  show ?thesis
    using assms release_effects [of opts g ci sd w2]
    by (auto simp: generateHandleWS_def sv split: prod.splits)
qed

text \<open>
  C5. For an admitted \<open>GET\<close> request whose upgrade succeeded: when \<open>MaxConnection\<close> is positive
  and the count returned by \<open>counter.add(1)\<close> exceeds it, the handler writes, after the
  upgrade, the close frame with code 4000 and reason "Another session is active", closes
  the connection and returns; no frame is read and the backend factory is not called.
  When \<open>MaxConnection\<close> is zero or the count does not exceed it, the handler goes on to
  \<open>processWSConn\<close>, which starts by reading the authentication frame.
\<close>

theorem max_connection_close:
  assumes "admit opts r w0 = (fx, Some (e, g), w)"
    and "Method r = ''GET''" and "Upgrade io = None"
  shows "(0 < MaxConnection opts \<and> MaxConnection opts < fst (counter_add 1 w) \<longrightarrow>
            fst (generateHandleWS opts io r w0) =
              fst (resolveEnvFromRequest r) @
              [Upgraded, WriteClose 4000 ''Another session is active'', ConnClose] @
              (if Once opts then [CtxCancel] else []) \<and>
            ReadFrame \<notin> set (fst (generateHandleWS opts io r w0)) \<and>
            FactoryNew p h \<notin> set (fst (generateHandleWS opts io r w0))) \<and>
         (MaxConnection opts = 0 \<or> fst (counter_add 1 w) \<le> MaxConnection opts \<longrightarrow>
            (\<exists>rest. fst (generateHandleWS opts io r w0) =
               fst (resolveEnvFromRequest r) @ [Upgraded, ReadFrame] @ rest \<and>
               ReadFrame # rest =
                 fst (processWSConn opts io (if PassHeaders opts then Some (Header r) else None)
                        (Query r))
                 @ [ConnClose] @ (if Once opts then [CtxCancel] else [])))"
proof (intro conjI impI)
  note fx = admit_effects [OF assms(1)]
  note all = generateHandleWS_effects [OF assms(1), of io]
  {
    assume a: "0 < MaxConnection opts \<and> MaxConnection opts < fst (counter_add 1 w)"
    then have sv: "serve opts io r e w =
           ([Upgraded, WriteClose 4000 ''Another session is active'', ConnClose], True, False,
            snd (counter_add 1 w))"
      using assms(2,3) by (intro serve_exceeded) auto
    show eq: "fst (generateHandleWS opts io r w0) =
              fst (resolveEnvFromRequest r) @
              [Upgraded, WriteClose 4000 ''Another session is active'', ConnClose] @
              (if Once opts then [CtxCancel] else [])"
      using all by (simp add: sv fx)
    show "ReadFrame \<notin> set (fst (generateHandleWS opts io r w0))"
      using resolve_effects [of r] by (auto simp: eq)
    show "FactoryNew p h \<notin> set (fst (generateHandleWS opts io r w0))"
      using resolve_effects [of r] by (auto simp: eq)
  }
  {
    assume b: "MaxConnection opts = 0 \<or> fst (counter_add 1 w) \<le> MaxConnection opts"
    let ?pw = "processWSConn opts io (if PassHeaders opts then Some (Header r) else None) (Query r)"
    obtain rest0 where r0: "fst ?pw = ReadFrame # rest0"
      using processWSConn_starts by blast
    from serve_within [OF assms(2,3) b, of e]
    have "fst (generateHandleWS opts io r w0) =
            fst (resolveEnvFromRequest r) @ [Upgraded] @ fst ?pw @ [ConnClose] @
            (if Once opts then [CtxCancel] else [])"
      using all by (simp add: fx)
    then show "\<exists>rest. fst (generateHandleWS opts io r w0) =
               fst (resolveEnvFromRequest r) @ [Upgraded, ReadFrame] @ rest \<and>
               ReadFrame # rest = fst ?pw @ [ConnClose] @ (if Once opts then [CtxCancel] else [])"
      by (simp add: r0)
  }
qed

text \<open>
  With \<open>MaxConnection = 1\<close>: a dev session arriving while one connection is counted gets the
  close frame; arriving at an idle server it is read for authentication.
\<close>

lemma trim_dev: "strings_TrimSpace ''dev'' = ''dev''"
  by code_simp

lemma lower_dev: "strings_ToLower ''dev'' = ''dev''"
  by code_simp

lemma resolve_dev:
  "resolveEnvFromRequest dev_request
     = ([SetCookie \<lparr>Name = ''gotty.env'', Value = ''dev'', Path = ''/''\<rparr>], ''dev'')"
  by (simp add: resolveEnvFromRequest_def dev_request_def example_request_def Get_def
        envQueryParam_def envCookieName_def trim_dev lower_dev Let_def)

lemma admit_dev:
  "\<not> decommissioned (server w) \<Longrightarrow>
   admit limited_opts dev_request w
     = ([SetCookie \<lparr>Name = ''gotty.env'', Value = ''dev'', Path = ''/''\<rparr>],
        Some (''dev'', \<lparr>env = ''dev''\<rparr>), w)"
  by (simp add: admit_def resolve_dev limited_opts_def example_opts_def
        beginManagedSession_def envValueDev_def)

theorem max_connection_close_witness:
  "admit limited_opts dev_request busy_world
     = ([SetCookie \<lparr>Name = ''gotty.env'', Value = ''dev'', Path = ''/''\<rparr>],
        Some (''dev'', \<lparr>env = ''dev''\<rparr>), busy_world) \<and>
   Method dev_request = ''GET'' \<and> Upgrade (example_io ''?'') = None \<and>
   0 < MaxConnection limited_opts \<and>
   MaxConnection limited_opts < fst (counter_add 1 busy_world) \<and>
   fst (generateHandleWS limited_opts (example_io ''?'') dev_request busy_world)
     = [SetCookie \<lparr>Name = ''gotty.env'', Value = ''dev'', Path = ''/''\<rparr>, Upgraded,
        WriteClose 4000 ''Another session is active'', ConnClose] \<and>
   fst (counter_add 1 newWorld) \<le> MaxConnection limited_opts \<and>
   (\<exists>rest. fst (generateHandleWS limited_opts (example_io ''?'') dev_request newWorld)
       = [SetCookie \<lparr>Name = ''gotty.env'', Value = ''dev'', Path = ''/''\<rparr>, Upgraded, ReadFrame]
         @ rest)"
proof -
  have a1: "admit limited_opts dev_request busy_world
     = ([SetCookie \<lparr>Name = ''gotty.env'', Value = ''dev'', Path = ''/''\<rparr>],
        Some (''dev'', \<lparr>env = ''dev''\<rparr>), busy_world)"
    by (rule admit_dev) (simp add: busy_world_def newWorld_def newServer_def)
  have a2: "admit limited_opts dev_request newWorld
     = ([SetCookie \<lparr>Name = ''gotty.env'', Value = ''dev'', Path = ''/''\<rparr>],
        Some (''dev'', \<lparr>env = ''dev''\<rparr>), newWorld)"
    by (rule admit_dev) (simp add: newWorld_def newServer_def)
  have m: "Method dev_request = ''GET''"
    by (simp add: dev_request_def example_request_def)
  have u: "Upgrade (example_io ''?'') = None"
    by (simp add: example_io_def)
  have n: "MaxConnection limited_opts = 1" "Once limited_opts = False"
    "fst (counter_add 1 busy_world) = 2" "fst (counter_add 1 newWorld) = 1"
    by (simp_all add: limited_opts_def example_opts_def counter_add_def busy_world_def
          newWorld_def)
  show ?thesis
    using max_connection_close [OF a1 m u, of Map.empty None]
      max_connection_close [OF a2 m u, of Map.empty None]
    by (auto simp: a1 m u n resolve_dev)
qed

subsection \<open>Merging the arguments\<close>

text \<open>
  The query component that \<open>url.Parse\<close> extracts is the text after the first \<open>?\<close> of the
  part before the first \<open>#\<close>; a scheme, if one is split off, cannot contain a \<open>?\<close>.
\<close>

lemma question_mark_class: "\<not> isLetter (CHR ''?'')" "\<not> isSchemeExtra (CHR ''?'')"
  by (simp_all add: isLetter_def isSchemeExtra_def)

lemma Cut_snd_append:
  "sep \<notin> set pre \<Longrightarrow> snd (strings_Cut (pre @ cs) sep) = snd (strings_Cut cs sep)"
proof -
  assume "sep \<notin> set pre"
  then have "dropWhile (\<lambda>c. c \<noteq> sep) (pre @ cs) = dropWhile (\<lambda>c. c \<noteq> sep) cs"
    by (intro dropWhile_append2) auto
  then show ?thesis
    by (simp add: strings_Cut_def)
qed

lemma getScheme_loop_query:
  "getScheme_loop raw pre cs = Inr (scheme, rest) \<Longrightarrow> raw = pre @ cs \<Longrightarrow>
   CHR ''?'' \<notin> set pre \<Longrightarrow>
   snd (strings_Cut rest (CHR ''?'')) = snd (strings_Cut raw (CHR ''?''))"
proof (induction cs arbitrary: pre)
  case Nil
  then show ?case by simp
next
  case (Cons c cs)
  show ?case
  proof (cases "c = CHR ''?''")
    case True
    with Cons.prems show ?thesis
      by (simp add: question_mark_class)
  next
    case False
    have step: "snd (strings_Cut rest (CHR ''?'')) = snd (strings_Cut raw (CHR ''?''))"
      if "getScheme_loop raw (pre @ [c]) cs = Inr (scheme, rest)"
      using that Cons.prems(2,3) False Cons.IH [of "pre @ [c]"] by simp
    have colon: "snd (strings_Cut cs (CHR ''?'')) = snd (strings_Cut raw (CHR ''?''))"
      using Cons.prems(2,3) False Cut_snd_append [of "CHR ''?''" "pre @ [c]" cs]
      by simp
    from Cons.prems(1) step colon show ?thesis
      by (auto split: if_splits)
  qed
qed

lemma getScheme_query:
  "getScheme raw = Inr (scheme, rest) \<Longrightarrow>
   snd (strings_Cut rest (CHR ''?'')) = snd (strings_Cut raw (CHR ''?''))"
  using getScheme_loop_query [of raw "[]" raw scheme rest] by (simp add: getScheme_def)

lemma Cut_snd_force:
  assumes "rest \<noteq> []" "last rest = CHR ''?''" "length (filter (\<lambda>c. c = CHR ''?'') rest) = 1"
  shows "snd (strings_Cut rest (CHR ''?'')) = []"
proof -
  obtain ys where r: "rest = ys @ [CHR ''?'']"
    using assms(1,2) by (metis append_butlast_last_id)
  with assms(3) have "filter (\<lambda>c. c = CHR ''?'') ys = []"
    by simp
  then have "CHR ''?'' \<notin> set ys"
    by (auto simp: filter_empty_conv)
  then show ?thesis
    using Cut_snd_append [of "CHR ''?''" ys "[CHR ''?'']"] by (simp add: r strings_Cut_def)
qed

lemma parse_RawQuery:
  assumes "parse pa raw = Inr u"
  shows "RawQuery u = snd (strings_Cut raw (CHR ''?''))"
proof (cases "stringContainsCTLByte raw \<or> raw = ''*''")
  case True
  with assms show ?thesis
    by (auto simp: parse_def emptyURL_def strings_Cut_def split: if_splits)
next
  case False
  with assms obtain scheme rest0 where gs: "getScheme raw = Inr (scheme, rest0)"
    by (auto simp: parse_def split: sum.splits)
  let ?force = "rest0 \<noteq> [] \<and> last rest0 = CHR ''?'' \<and>
                length (filter (\<lambda>c. c = CHR ''?'') rest0) = 1"
  have "RawQuery u = (if ?force then [] else snd (strings_Cut rest0 (CHR ''?'')))"
    using assms False gs
    by (auto simp: parse_def Let_def emptyURL_def split: if_splits option.splits sum.splits)
  also have "\<dots> = snd (strings_Cut rest0 (CHR ''?''))"
    using Cut_snd_force [of rest0] by auto
  also have "\<dots> = snd (strings_Cut raw (CHR ''?''))"
    using gs by (rule getScheme_query)
  finally show ?thesis .
qed

lemma url_Parse_RawQuery:
  assumes "url_Parse pa raw = Inr u"
  shows "RawQuery u = snd (strings_Cut (fst (strings_Cut raw (CHR ''#''))) (CHR ''?''))"
proof -
  from assms obtain u0 where p: "parse pa (fst (strings_Cut raw (CHR ''#''))) = Inr u0"
    and "RawQuery u = RawQuery u0"
    by (auto simp: url_Parse_def split: prod.splits sum.splits if_splits)
  with parse_RawQuery [OF p] show ?thesis by simp
qed

lemma processWSConn_merge:
  assumes "ReadMessage io = Inr (TextMessage, line)" "json_Unmarshal io line = Inr init"
    and "AuthToken init = Credential opts"
    and "PermitArguments opts" "Arguments init \<noteq> []"
    and "url_Parse (parseAuthority io) (Arguments init) = Inr u"
  shows "\<exists>rest. fst (processWSConn opts io hdrs http) =
           ReadFrame # FactoryNew (URL_Query u ++ http) hdrs # rest"
proof -
  have "processWSConn opts io hdrs http =
          (let params = URL_Query u ++ http
           in case factory_New io params hdrs of
                Some err \<Rightarrow>
                  ([ReadFrame, FactoryNew params hdrs],
                   Some (Wrapped ''failed to create backend'' err))
              | None \<Rightarrow>
                  (case title_Execute io of
                     Some err \<Rightarrow>
                       ([ReadFrame, FactoryNew params hdrs, SlaveClose],
                        Some (Wrapped ''failed to fill window title template'' err))
                   | None \<Rightarrow>
                       (case webtty_New io of
                          Some err \<Rightarrow>
                            ([ReadFrame, FactoryNew params hdrs, SlaveClose],
                             Some (Wrapped ''failed to create webtty'' err))
                        | None \<Rightarrow>
                            ([ReadFrame, FactoryNew params hdrs, SlaveClose], tty_Run io))))"
    unfolding processWSConn_def using assms by simp
  then show ?thesis
    by (simp add: Let_def split: option.splits)
qed

lemma parse_bare_arguments:
  "url_Parse (\<lambda>a. None) ''foo=1&bar=2'' = Inr (emptyURL\<lparr>URL_Path := ''foo=1&bar=2''\<rparr>)"
  by code_simp

lemma parse_query_arguments:
  "url_Parse (\<lambda>a. None) ''?foo=1&bar=2'' = Inr (emptyURL\<lparr>RawQuery := ''foo=1&bar=2''\<rparr>)"
  by code_simp

lemma parseQuery_example:
  "parseQuery Map.empty ''foo=1&bar=2'' = [''foo'' \<mapsto> [''1''], ''bar'' \<mapsto> [''2'']]"
  by (simp add: parseQuery.simps parsePair_def strings_Cut_def QueryUnescape_def)

lemma processWSConn_bare_arguments:
  "processWSConn example_opts (example_io ''foo=1&bar=2'') None [''bar'' \<mapsto> [''3'']]
     = ([ReadFrame, FactoryNew [''bar'' \<mapsto> [''3'']] None, SlaveClose], Some ErrMasterClosed)"
  by (simp add: processWSConn_def example_opts_def example_io_def example_init_def
        TextMessage_def parse_bare_arguments URL_Query_def emptyURL_def parseQuery_Nil)

lemma processWSConn_query_arguments:
  "processWSConn example_opts (example_io ''?foo=1&bar=2'') None [''bar'' \<mapsto> [''3'']]
     = ([ReadFrame, FactoryNew [''foo'' \<mapsto> [''1''], ''bar'' \<mapsto> [''3'']] None, SlaveClose],
        Some ErrMasterClosed)"
  by (simp add: processWSConn_def example_opts_def example_io_def example_init_def
        TextMessage_def parse_query_arguments URL_Query_def emptyURL_def parseQuery_example)

text \<open>
  C6, as stated, fails in its example: \<open>Arguments = "foo=1&bar=2"\<close> has no \<open>?\<close>, so \<open>url.Parse\<close>
  reads all of it as a path and its query is empty. With the HTTP query \<open>?bar=3\<close> the
  backend factory receives \<open>{bar: [3]}\<close>; \<open>foo\<close> is not among the parameters.
\<close>

theorem argument_precedence_counterexample:
  "PermitArguments example_opts \<and>
   json_Unmarshal (example_io ''foo=1&bar=2'') ''{}''
     = Inr \<lparr>AuthToken = ''secret'', Arguments = ''foo=1&bar=2''\<rparr> \<and>
   fst (processWSConn example_opts (example_io ''foo=1&bar=2'') None [''bar'' \<mapsto> [''3'']])
     = [ReadFrame, FactoryNew [''bar'' \<mapsto> [''3'']] None, SlaveClose] \<and>
   [''bar'' \<mapsto> [''3'']] ''foo'' = None \<and>
   FactoryNew [''foo'' \<mapsto> [''1''], ''bar'' \<mapsto> [''3'']] None
     \<notin> set (fst (processWSConn example_opts (example_io ''foo=1&bar=2'') None
                     [''bar'' \<mapsto> [''3'']]))"
proof -
  have "[''bar'' \<mapsto> [''3'']] \<noteq> [''foo'' \<mapsto> [''1''], ''bar'' \<mapsto> [''3'']]"
    by (auto dest: fun_cong [of _ _ "''foo''"])
  moreover have "PermitArguments example_opts"
    by (simp add: example_opts_def)
  moreover have "json_Unmarshal (example_io ''foo=1&bar=2'') ''{}''
     = Inr \<lparr>AuthToken = ''secret'', Arguments = ''foo=1&bar=2''\<rparr>"
    by (simp add: example_io_def example_init_def)
  ultimately show ?thesis
    by (simp add: processWSConn_bare_arguments)
qed

text \<open>
  C6, amended. When the session is authenticated, arguments are permitted, and the init
  message's \<open>Arguments\<close> is not empty and parses as a URL \<open>u\<close>, the backend factory is called
  with the query parameters of \<open>u\<close> overlaid by the HTTP query parameters: a key of the HTTP
  query has the HTTP value, every other key has the value from \<open>u\<close>. The parameters of \<open>u\<close>
  are those of the text after the first \<open>?\<close> of \<open>Arguments\<close> (up to a \<open>#\<close>). In particular, with
  \<open>Arguments = "?foo=1&bar=2"\<close> and the HTTP query \<open>?bar=3\<close> the factory receives
  \<open>{foo: [1], bar: [3]}\<close>.
\<close>

theorem argument_precedence:
  "(ReadMessage io = Inr (TextMessage, line) \<and> json_Unmarshal io line = Inr init \<and>
    AuthToken init = Credential opts \<and> PermitArguments opts \<and> Arguments init \<noteq> [] \<and>
    url_Parse (parseAuthority io) (Arguments init) = Inr u \<longrightarrow>
      (\<exists>rest. fst (processWSConn opts io hdrs http) =
         ReadFrame # FactoryNew (URL_Query u ++ http) hdrs # rest) \<and>
      URL_Query u =
        parseQuery Map.empty
          (snd (strings_Cut (fst (strings_Cut (Arguments init) (CHR ''#''))) (CHR ''?''))) \<and>
      (k \<in> dom http \<longrightarrow> (URL_Query u ++ http) k = http k) \<and>
      (k \<notin> dom http \<longrightarrow> (URL_Query u ++ http) k = URL_Query u k)) \<and>
   fst (processWSConn example_opts (example_io ''?foo=1&bar=2'') None [''bar'' \<mapsto> [''3'']])
     = [ReadFrame, FactoryNew [''foo'' \<mapsto> [''1''], ''bar'' \<mapsto> [''3'']] None, SlaveClose]"
proof (intro conjI impI)
  assume a: "ReadMessage io = Inr (TextMessage, line) \<and> json_Unmarshal io line = Inr init \<and>
    AuthToken init = Credential opts \<and> PermitArguments opts \<and> Arguments init \<noteq> [] \<and>
    url_Parse (parseAuthority io) (Arguments init) = Inr u"
  then show "\<exists>rest. fst (processWSConn opts io hdrs http) =
         ReadFrame # FactoryNew (URL_Query u ++ http) hdrs # rest"
    by (intro processWSConn_merge) auto
  from a have "url_Parse (parseAuthority io) (Arguments init) = Inr u"
    by simp
  then show "URL_Query u =
        parseQuery Map.empty
          (snd (strings_Cut (fst (strings_Cut (Arguments init) (CHR ''#''))) (CHR ''?'')))"
    by (simp add: URL_Query_def url_Parse_RawQuery)
next
  assume "k \<in> dom http"
  then show "(URL_Query u ++ http) k = http k"
    by (auto simp: map_add_def)
next
  assume "k \<notin> dom http"
  then show "(URL_Query u ++ http) k = URL_Query u k"
    by (simp add: map_add_def domIff)
next
  show "fst (processWSConn example_opts (example_io ''?foo=1&bar=2'') None [''bar'' \<mapsto> [''3'']])
     = [ReadFrame, FactoryNew [''foo'' \<mapsto> [''1''], ''bar'' \<mapsto> [''3'']] None, SlaveClose]"
    by (simp add: processWSConn_query_arguments)
qed

text \<open>The example, key by key.\<close>

theorem argument_precedence_witness:
  "ReadMessage (example_io ''?foo=1&bar=2'') = Inr (TextMessage, ''{}'') \<and>
   json_Unmarshal (example_io ''?foo=1&bar=2'') ''{}'' = Inr (example_init ''?foo=1&bar=2'') \<and>
   AuthToken (example_init ''?foo=1&bar=2'') = Credential example_opts \<and>
   PermitArguments example_opts \<and>
   Arguments (example_init ''?foo=1&bar=2'') \<noteq> [] \<and>
   url_Parse (parseAuthority (example_io ''?foo=1&bar=2'')) (Arguments (example_init ''?foo=1&bar=2''))
     = Inr (emptyURL\<lparr>RawQuery := ''foo=1&bar=2''\<rparr>) \<and>
   ''bar'' \<in> dom [''bar'' \<mapsto> [''3'']] \<and>
   (URL_Query (emptyURL\<lparr>RawQuery := ''foo=1&bar=2''\<rparr>) ++ [''bar'' \<mapsto> [''3'']]) ''bar''
     = Some [''3''] \<and>
   ''foo'' \<notin> dom [''bar'' \<mapsto> [''3'']] \<and>
   (URL_Query (emptyURL\<lparr>RawQuery := ''foo=1&bar=2''\<rparr>) ++ [''bar'' \<mapsto> [''3'']]) ''foo''
     = Some [''1'']"
proof -
  let ?io = "example_io ''?foo=1&bar=2''"
  let ?init = "example_init ''?foo=1&bar=2''"
  let ?u = "emptyURL\<lparr>RawQuery := ''foo=1&bar=2''\<rparr>"
  have h: "ReadMessage ?io = Inr (TextMessage, ''{}'')" "json_Unmarshal ?io ''{}'' = Inr ?init"
    "AuthToken ?init = Credential example_opts" "PermitArguments example_opts"
    "Arguments ?init \<noteq> []"
    "url_Parse (parseAuthority ?io) (Arguments ?init) = Inr ?u"
    by (simp_all add: example_io_def example_init_def example_opts_def TextMessage_def
          parse_query_arguments)
  have q: "URL_Query ?u = [''foo'' \<mapsto> [''1''], ''bar'' \<mapsto> [''2'']]"
    by (simp add: URL_Query_def emptyURL_def parseQuery_example)
  let ?http = "[''bar'' \<mapsto> [''3'']] :: Values"
  have hb: "''bar'' \<in> dom ?http" and hf: "''foo'' \<notin> dom ?http"
    by simp_all
  from argument_precedence [of ?io "''{}''" ?init example_opts ?u None ?http "''bar''"] h hb
  have b: "(URL_Query ?u ++ ?http) ''bar'' = ?http ''bar''"
    by blast
  from argument_precedence [of ?io "''{}''" ?init example_opts ?u None ?http "''foo''"] h hf
  have f: "(URL_Query ?u ++ ?http) ''foo'' = URL_Query ?u ''foo''"
    by blast
  have "(URL_Query ?u ++ ?http) ''bar'' = Some [''3'']"
    using b by simp
  moreover have "(URL_Query ?u ++ ?http) ''foo'' = Some [''1'']"
    using f by (simp add: q)
  ultimately show ?thesis
    using h hb hf by simp
qed

subsection \<open>The single-use flag of once mode\<close>

text \<open>The handler run from entry to return is an arrival followed by its own departure.\<close>

lemma generateHandleWS_as_events:
  "fst (generateHandleWS opts io r w)
     = concat (fst (hrun opts \<lparr>world = w, inflight = []\<rparr> [Arrive r io, Leave 0])) \<and>
   snd (generateHandleWS opts io r w)
     = world (snd (hrun opts \<lparr>world = w, inflight = []\<rparr> [Arrive r io, Leave 0]))"
proof -
  obtain fx a w1 where ad: "admit opts r w = (fx, a, w1)"
    by (cases "admit opts r w") auto
  show ?thesis
  proof (cases a)
    case None
    with ad show ?thesis
      by (simp add: generateHandleWS_def)
  next
    case (Some eg)
    obtain e g where eg: "eg = (e, g)" by (cases eg)
    obtain fx2 ci sd w2 where sv: "serve opts io r e w1 = (fx2, ci, sd, w2)"
      by (cases "serve opts io r e w1") auto
    obtain fx3 w3 where rl: "release opts g ci sd w2 = (fx3, w3)"
      by (cases "release opts g ci sd w2") auto
    from ad Some eg sv rl show ?thesis
      by (simp add: generateHandleWS_def)
  qed
qed

lemma admit_once_taken:
  "Once opts \<Longrightarrow> once w \<noteq> 0 \<Longrightarrow>
   admit opts r w =
     (fst (resolveEnvFromRequest r) @ [HttpError ''Server is shutting down'' 503], None, w)"
  by (simp add: admit_def CompareAndSwapInt64_def split: prod.splits)

lemma admit_once_claims:
  "Once opts \<Longrightarrow> once w = 0 \<Longrightarrow> once (snd (snd (admit opts r w))) = 1"
  by (auto simp: admit_def CompareAndSwapInt64_def Let_def split: prod.splits sum.splits)

lemma serve_once: "once (snd (snd (snd (serve opts io r e w)))) = once w"
  by (simp add: serve_def counter_add_def Let_def split: option.splits prod.splits)

lemma release_once: "once (snd (release opts g ci sd w)) = once w"
  by (simp add: release_def counter_done_def Let_def)

lemma hstep_Arrive_claims:
  assumes "Once opts" "once (world s) = 0"
  shows "once (world (snd (hstep opts s (Arrive r io)))) = 1"
proof -
  obtain fx a w1 where ad: "admit opts r (world s) = (fx, a, w1)"
    by (cases "admit opts r (world s)") auto
  with admit_once_claims [OF assms, of r] have w1: "once w1 = 1"
    by simp
  show ?thesis
  proof (cases a)
    case None
    with ad w1 show ?thesis by simp
  next
    case (Some eg)
    obtain e g where eg: "eg = (e, g)" by (cases eg)
    obtain fx2 ci sd w2 where sv: "serve opts io r e w1 = (fx2, ci, sd, w2)"
      by (cases "serve opts io r e w1") auto
    with serve_once [of opts io r e w1] w1 have "once w2 = 1"
      by simp
    with ad Some eg sv show ?thesis by simp
  qed
qed

lemma hstep_taken:
  assumes "Once opts" "once (world s) \<noteq> 0"
  shows "once (world (snd (hstep opts s ev))) = once (world s)"
    and "ev = Arrive r io \<Longrightarrow>
         fst (hstep opts s ev) =
           fst (resolveEnvFromRequest r) @ [HttpError ''Server is shutting down'' 503]"
proof -
  show "once (world (snd (hstep opts s ev))) = once (world s)"
  proof (cases ev)
    case (Arrive r' io')
    with assms show ?thesis by (simp add: admit_once_taken)
  next
    case (Leave i)
    then show ?thesis
      using release_once
        [of opts "p_guard (inflight s ! i)" "p_counterIncremented (inflight s ! i)"
            "p_sessionShouldDecommission (inflight s ! i)" "world s"]
      by (auto simp: Let_def split: prod.splits)
  qed
  show "fst (hstep opts s ev) =
           fst (resolveEnvFromRequest r) @ [HttpError ''Server is shutting down'' 503]"
    if "ev = Arrive r io"
    using that assms by (simp add: admit_once_taken)
qed

lemma hrun_taken:
  assumes "Once opts"
  shows "once (world s) \<noteq> 0 \<Longrightarrow> hrun opts s evs = (fxs, s') \<Longrightarrow>
         once (world s') = once (world s) \<and>
         (i < length evs \<longrightarrow> evs ! i = Arrive r io \<longrightarrow>
            fxs ! i = fst (resolveEnvFromRequest r) @ [HttpError ''Server is shutting down'' 503])"
proof (induction evs arbitrary: s fxs i)
  case Nil
  then show ?case by simp
next
  case (Cons ev evs)
  obtain fx s1 where st: "hstep opts s ev = (fx, s1)"
    by (cases "hstep opts s ev") auto
  obtain fxs1 s2 where rn: "hrun opts s1 evs = (fxs1, s2)"
    by (cases "hrun opts s1 evs") auto
  from Cons.prems(2) st rn have res: "fxs = fx # fxs1" "s' = s2"
    by simp_all
  from hstep_taken(1) [OF assms Cons.prems(1), of ev] st
  have o1: "once (world s1) = once (world s)"
    by simp
  with Cons.prems(1) have nz: "once (world s1) \<noteq> 0"
    by simp
  from rn res have rn': "hrun opts s1 evs = (fxs1, s')"
    by simp
  note ih = Cons.IH [OF nz rn']
  show ?case
  proof (cases i)
    case 0
    have "fx = fst (resolveEnvFromRequest r) @ [HttpError ''Server is shutting down'' 503]"
      if "ev = Arrive r io"
      using hstep_taken(2) [OF assms Cons.prems(1) that] by (simp only: st fst_conv)
    with 0 res o1 ih [of 0] show ?thesis by simp
  next
    case (Suc j)
    with res o1 ih [of j] show ?thesis by simp
  qed
qed

text \<open>
  C10. On a server in once mode whose flag is still unclaimed, a request claims the flag
  by compare-and-swap when it arrives, before admission and whatever becomes of it
  afterwards (admission refused, method not \<open>GET\<close>, or a session). From then on, under
  every interleaving of later arrivals and departures, the flag stays claimed and every
  request that arrives is answered \<open>http.Error(w, "Server is shutting down", 503)\<close>, after
  the cookie of the environment resolution if it sets one.
\<close>

theorem once_flag_never_released:
  assumes "Once opts" and "once (world s) = 0"
    and "hstep opts s (Arrive r io) = (fx, s1)"
    and "hrun opts s1 evs = (fxs, s2)"
    and "i < length evs" and "evs ! i = Arrive r' io'"
  shows "once (world s1) = 1 \<and> once (world s2) = 1 \<and>
         fxs ! i = fst (resolveEnvFromRequest r') @ [HttpError ''Server is shutting down'' 503]"
proof -
  from hstep_Arrive_claims [OF assms(1,2), of r io] assms(3)
  have o1: "once (world s1) = 1"
    by simp
  then have nz: "once (world s1) \<noteq> 0"
    by simp
  from hrun_taken [OF assms(1) nz assms(4), of i r' io'] assms(5,6) o1
  show ?thesis
    by simp
qed

text \<open>
  A first request with method \<open>POST\<close> on a fresh server, and a first request on a
  decommissioned server: neither establishes a session, and the next request is refused.
\<close>

lemma admit_once_plain:
  "admit once_opts (example_request m Map.empty) newWorld
     = ([], Some (''prod'', \<lparr>env = ''prod''\<rparr>),
        newWorld\<lparr>once := 1, server := newServer\<lparr>activeSession := True\<rparr>\<rparr>)"
  by (simp add: admit_def resolve_plain once_opts_def example_opts_def newWorld_def
        newServer_def CompareAndSwapInt64_def beginManagedSession_def envValueDev_def)

lemma serve_wrong_method:
  "Method r \<noteq> ''GET'' \<Longrightarrow>
   serve opts io r e w = ([HttpError ''Method not allowed'' 405], False, False, w)"
  by (simp add: serve_def)

lemma hstep_post_arrival:
  "fst (hstep once_opts hsys0 post_arrival) = [HttpError ''Method not allowed'' 405]"
proof -
  have "Method (example_request ''POST'' Map.empty) \<noteq> ''GET''"
    by (simp add: example_request_def)
  then show ?thesis
    by (simp add: post_arrival_def hsys0_def admit_once_plain serve_wrong_method)
qed

lemma decommissioned_world_server:
  "server decommissioned_world = \<lparr>decommissioned = True, activeSession = False, unhealthy = 1\<rparr>"
  by (simp add: decommissioned_world_def decommissioning_ops_def later_ops_def newServer_def
        beginManagedSession_def finish_def Let_def markUnhealthy_def envValueDev_def)

lemma admit_destroyed:
  "admit once_opts (example_request m Map.empty) decommissioned_world
     = ([HttpError ''Server is unavailable'' 503], None, decommissioned_world\<lparr>once := 1\<rparr>)"
proof -
  have "once decommissioned_world = 0"
    by (simp add: decommissioned_world_def newWorld_def)
  moreover have "Once once_opts"
    by (simp add: once_opts_def)
  moreover have "decommissioned (server decommissioned_world)"
    by (simp add: decommissioned_world_server)
  ultimately show ?thesis
    by (simp add: admit_def resolve_plain CompareAndSwapInt64_def beginManagedSession_def)
qed

lemma hstep_destroyed_arrival:
  "fst (hstep once_opts destroyed_hsys get_arrival) = [HttpError ''Server is unavailable'' 503]"
  by (simp add: get_arrival_def destroyed_hsys_def admit_destroyed)

theorem once_flag_never_released_witness:
  "Once once_opts \<and> once (world hsys0) = 0 \<and> once (world destroyed_hsys) = 0 \<and>
   1 < length later_events \<and> later_events ! 1 = get_arrival \<and>
   fst (hstep once_opts hsys0 post_arrival) = [HttpError ''Method not allowed'' 405] \<and>
   fst (hrun once_opts (snd (hstep once_opts hsys0 post_arrival)) later_events) ! 1
     = [HttpError ''Server is shutting down'' 503] \<and>
   fst (hstep once_opts destroyed_hsys get_arrival) = [HttpError ''Server is unavailable'' 503] \<and>
   fst (hrun once_opts (snd (hstep once_opts destroyed_hsys get_arrival)) later_events) ! 1
     = [HttpError ''Server is shutting down'' 503]"
proof -
  have o: "Once once_opts"
    by (simp add: once_opts_def)
  have z: "once (world hsys0) = 0" "once (world destroyed_hsys) = 0"
    by (simp_all add: hsys0_def destroyed_hsys_def decommissioned_world_def newWorld_def)
  have l: "1 < length later_events" "later_events ! 1 = get_arrival"
    by (simp_all add: later_events_def)
  have l': "later_events ! 1 = Arrive (example_request ''GET'' Map.empty) (example_io ''?'')"
    by (simp add: later_events_def get_arrival_def)
  have p: "hstep once_opts hsys0 (Arrive (example_request ''POST'' Map.empty) (example_io ''?''))
             = (fst (hstep once_opts hsys0 post_arrival), snd (hstep once_opts hsys0 post_arrival))"
    by (simp add: post_arrival_def)
  have g: "hstep once_opts destroyed_hsys (Arrive (example_request ''GET'' Map.empty) (example_io ''?''))
             = (fst (hstep once_opts destroyed_hsys get_arrival),
                snd (hstep once_opts destroyed_hsys get_arrival))"
    by (simp add: get_arrival_def)
  have r1: "hrun once_opts (snd (hstep once_opts hsys0 post_arrival)) later_events
              = (fst (hrun once_opts (snd (hstep once_opts hsys0 post_arrival)) later_events),
                 snd (hrun once_opts (snd (hstep once_opts hsys0 post_arrival)) later_events))"
    by simp
  have r2: "hrun once_opts (snd (hstep once_opts destroyed_hsys get_arrival)) later_events
              = (fst (hrun once_opts (snd (hstep once_opts destroyed_hsys get_arrival)) later_events),
                 snd (hrun once_opts (snd (hstep once_opts destroyed_hsys get_arrival)) later_events))"
    by simp
  show ?thesis
    using o z l hstep_post_arrival hstep_destroyed_arrival
      once_flag_never_released [OF o z(1) p r1 l(1) l']
      once_flag_never_released [OF o z(2) g r2 l(1) l']
    by (simp add: resolve_plain)
qed

end
